theory Spec2Isabelle
  imports Complex_Main "HOL-Library.AList" "HOL-Library.Word"
begin

section \<open>Python values that cross the SDK's interface\<close>

text \<open>
  The SDK (\<^verbatim>\<open>qa_platform_sdk.py\<close>) handles parsed JSON documents: what
  \<^verbatim>\<open>response.json()\<close> returns and what callers pass as query parameters and bodies.
  \<open>JNull\<close> is Python's \<^verbatim>\<open>None\<close>, an object is a dict in insertion order with
  distinct keys. Numbers are integers; JSON floats are left out.
\<close>

datatype json =
    JNull
  | JBool bool
  | JNum int
  | JStr string
  | JArr "json list"
  | JObj "(string \<times> json) list"

text \<open>The exceptions that can leave the SDK's methods.\<close>

datatype error =
    QAPlatformError json "int option" json json
    \<comment> \<open>message, status code, error code, details\<close>
  | RateLimitError json int
    \<comment> \<open>message, retry-after\<close>
  | AuthenticationError json
  | ValueError
  | TypeError
  | AttributeError
  | KeyError
  | UnicodeEncodeError

text \<open>Python's truth value of a JSON document (\<^verbatim>\<open>if x:\<close>).\<close>

fun truthy :: "json \<Rightarrow> bool" where
  "truthy JNull = False"
| "truthy (JBool b) = b"
| "truthy (JNum n) = (n \<noteq> 0)"
| "truthy (JStr s) = (s \<noteq> [])"
| "truthy (JArr xs) = (xs \<noteq> [])"
| "truthy (JObj kvs) = (kvs \<noteq> [])"

text \<open>\<^verbatim>\<open>x.get(k, default)\<close>: only a dict has the method.\<close>

fun py_get :: "json \<Rightarrow> string \<Rightarrow> json \<Rightarrow> error + json" where
  "py_get (JObj kvs) k d = Inr (case map_of kvs k of None \<Rightarrow> d | Some v \<Rightarrow> v)"
| "py_get _ k d = Inl AttributeError"

text \<open>\<^verbatim>\<open>k in x\<close> for a string \<open>k\<close>: a key of a dict, a member of a list, a substring.\<close>

definition is_substring :: "string \<Rightarrow> string \<Rightarrow> bool" where
  "is_substring k s = list_ex (\<lambda>n. take (length k) (drop n s) = k) [0..<Suc (length s)]"

fun py_contains :: "json \<Rightarrow> string \<Rightarrow> error + bool" where
  "py_contains (JObj kvs) k = Inr (map_of kvs k \<noteq> None)"
| "py_contains (JArr xs) k = Inr (List.member xs (JStr k))"
| "py_contains (JStr s) k = Inr (is_substring k s)"
| "py_contains _ k = Inl TypeError"

text \<open>\<^verbatim>\<open>x[k]\<close> for a string \<open>k\<close>.\<close>

fun py_subscript :: "json \<Rightarrow> string \<Rightarrow> error + json" where
  "py_subscript (JObj kvs) k = (case map_of kvs k of None \<Rightarrow> Inl KeyError | Some v \<Rightarrow> Inr v)"
| "py_subscript _ k = Inl TypeError"

text \<open>Iterating a value (\<^verbatim>\<open>list.extend\<close>) and \<^verbatim>\<open>len\<close>.\<close>

fun py_iter :: "json \<Rightarrow> error + json list" where
  "py_iter (JArr xs) = Inr xs"
| "py_iter (JStr s) = Inr (map (\<lambda>c. JStr [c]) s)"
| "py_iter (JObj kvs) = Inr (map (\<lambda>kv. JStr (fst kv)) kvs)"
| "py_iter _ = Inl TypeError"

fun py_len :: "json \<Rightarrow> error + int" where
  "py_len (JArr xs) = Inr (int (length xs))"
| "py_len (JStr s) = Inr (int (length s))"
| "py_len (JObj kvs) = Inr (int (length kvs))"
| "py_len _ = Inl TypeError"

text \<open>\<^verbatim>\<open>x <= n\<close> for an integer \<open>n\<close>: numbers and booleans compare, the rest raises.\<close>

fun py_le_int :: "json \<Rightarrow> int \<Rightarrow> error + bool" where
  "py_le_int (JNum t) n = Inr (t \<le> n)"
| "py_le_int (JBool b) n = Inr ((if b then 1 else 0) \<le> n)"
| "py_le_int _ n = Inl TypeError"

subsection \<open>\<^verbatim>\<open>int(s)\<close> on a header value\<close>

text \<open>
  A header value is a string of Latin-1 characters. \<^verbatim>\<open>int\<close> strips white space
  (the ASCII white space and, of Latin-1, NEL and the no-break space), reads an optional
  sign and decimal digits, single underscores allowed between digits, and raises
  \<^verbatim>\<open>ValueError\<close> (here \<open>None\<close>) on anything else.
\<close>

definition is_space :: "char \<Rightarrow> bool" where
  "is_space c = ((of_char c :: nat) \<in> {9, 10, 11, 12, 13, 32, 133, 160})"

definition is_digit :: "char \<Rightarrow> bool" where
  "is_digit c = (48 \<le> (of_char c :: nat) \<and> (of_char c :: nat) \<le> 57)"

definition digit_val :: "char \<Rightarrow> int" where
  "digit_val c = int (of_char c) - 48"

definition strip :: "string \<Rightarrow> string" where
  "strip s = rev (dropWhile is_space (rev (dropWhile is_space s)))"

fun py_digits :: "bool \<Rightarrow> int \<Rightarrow> string \<Rightarrow> int option" where
  "py_digits prev acc [] = (if prev then Some acc else None)"
| "py_digits prev acc (c # cs) =
     (if is_digit c then py_digits True (10 * acc + digit_val c) cs
      else if c = CHR ''_'' \<and> prev then py_digits False acc cs
      else None)"

definition py_int :: "string \<Rightarrow> int option" where
  "py_int s =
     (case strip s of
        [] \<Rightarrow> None
      | c # cs \<Rightarrow>
          if c = CHR ''+'' then py_digits False 0 cs
          else if c = CHR ''-'' then map_option uminus (py_digits False 0 cs)
          else py_digits False 0 (c # cs))"

section \<open>The transport and the world\<close>

text \<open>
  A header value is text; \<open>Bearer t\<close> stands for the formatted string
  \<^verbatim>\<open>f'Bearer {t}'\<close>, whose token can be any value a login response carried.
\<close>

datatype header_value = Literal string | Bearer json

type_synonym headers = "(string \<times> header_value) list"

type_synonym file_part = "string \<times> string \<times> string"
  \<comment> \<open>file name, content, content type\<close>

text \<open>
  What \<^verbatim>\<open>self.session.request(method, url, **request_kwargs)\<close> is called with,
  together with the session's default headers at that moment.
\<close>

record http_call =
  call_method :: string
  call_url :: string
  call_timeout :: int
  call_params :: "(string \<times> json) list option"
  call_headers :: "headers option"
  call_files :: "(string \<times> file_part) list option"
  call_json :: "json option"
  call_session_headers :: headers

text \<open>
  A response as the SDK reads it: \<open>resp_headers\<close> is keyed by lower-cased header names
  (the library's dictionary ignores case), \<open>resp_json\<close> is what \<^verbatim>\<open>response.json()\<close>
  returns, \<open>None\<close> when it raises because the body is not JSON.
\<close>

record response =
  status_code :: int
  resp_headers :: "(string \<times> string) list"
  resp_text :: string
  resp_json :: "json option"

text \<open>The library's \<^verbatim>\<open>response.ok\<close>: no status from 400 to 599.\<close>

definition ok :: "response \<Rightarrow> bool" where
  "ok r = (\<not> (400 \<le> status_code r \<and> status_code r < 600))"

text \<open>
  The subclasses of \<^verbatim>\<open>requests.exceptions.RequestException\<close> the SDK tells apart,
  each with its text (\<^verbatim>\<open>str(e)\<close>).
\<close>

datatype request_exception =
    ConnectionError string
  | Timeout string
  | HTTPError string
  | JSONDecodeError string
  | OtherRequestException string

fun exception_text :: "request_exception \<Rightarrow> string" where
  "exception_text (ConnectionError s) = s"
| "exception_text (Timeout s) = s"
| "exception_text (HTTPError s) = s"
| "exception_text (JSONDecodeError s) = s"
| "exception_text (OtherRequestException s) = s"

datatype event = Sent http_call | Slept rat

text \<open>
  The world outside the client: the state of the remote side and the log of what the
  client did to it, in order. Seconds are exact rationals.
\<close>

record 'w world =
  remote :: 'w
  log :: "event list"

type_synonym 'w transport = "'w \<Rightarrow> http_call \<Rightarrow> (request_exception + response) \<times> 'w"

definition send :: "'w transport \<Rightarrow> http_call \<Rightarrow> 'w world \<Rightarrow> (request_exception + response) \<times> 'w world" where
  "send tr call w =
     (case tr (remote w) call of
        (r, s) \<Rightarrow> (r, w\<lparr>remote := s, log := log w @ [Sent call]\<rparr>))"

text \<open>
  \<^verbatim>\<open>time.sleep(d)\<close> raises \<^verbatim>\<open>ValueError\<close> on a negative length. Lengths
  beyond the platform's range of time stamps (some 9 \<times> 10^9 seconds), where it raises
  \<^verbatim>\<open>OverflowError\<close>, are not told apart.
\<close>

definition sleep :: "rat \<Rightarrow> 'w world \<Rightarrow> (error + unit) \<times> 'w world" where
  "sleep d w = (if d < 0 then (Inl ValueError, w) else (Inr (), w\<lparr>log := log w @ [Slept d]\<rparr>))"

section \<open>The client\<close>

text \<open>
  The fields of \<^verbatim>\<open>QAPlatformAPI\<close>. \<open>jwt_token\<close> is a JSON value because
  \<^verbatim>\<open>login\<close> stores whatever the response holds under \<^verbatim>\<open>'token'\<close>;
  \<open>JNull\<close> is \<^verbatim>\<open>None\<close>. The logger is left out: it has no effect on
  results.
\<close>

record client =
  api_key :: "string option"
  jwt_token :: json
  base_url :: string
  retry_attempts :: int
  retry_delay :: rat
  timeout :: int
  session_headers :: headers

definition rstrip_slash :: "string \<Rightarrow> string" where
  "rstrip_slash s = rev (dropWhile (\<lambda>c. c = CHR ''/'') (rev s))"

definition truthy_key :: "string option \<Rightarrow> bool" where
  "truthy_key k = (case k of None \<Rightarrow> False | Some s \<Rightarrow> s \<noteq> [])"

definition default_headers :: headers where
  "default_headers =
     [(''User-Agent'', Literal ''QA-Platform-Python-SDK/1.1.0''),
      (''Accept'', Literal ''application/json''),
      (''Content-Type'', Literal ''application/json'')]"

definition update_auth_headers :: "client \<Rightarrow> client" where
  "update_auth_headers c =
     c\<lparr>session_headers :=
         (if truthy (jwt_token c) then default_headers @ [(''Authorization'', Bearer (jwt_token c))]
          else (case api_key c of
                  None \<Rightarrow> default_headers
                | Some k \<Rightarrow> if k \<noteq> [] then default_headers @ [(''X-API-Key'', Literal k)]
                            else default_headers))\<rparr>"

text \<open>The constructor, with its defaults passed explicitly.\<close>

definition init :: "string option \<Rightarrow> string option \<Rightarrow> string \<Rightarrow> int \<Rightarrow> rat \<Rightarrow> int \<Rightarrow> error + client" where
  "init key token url attempts delay tmo =
     (if \<not> truthy_key key \<and> \<not> truthy_key token then Inl ValueError
      else Inr (update_auth_headers
        \<lparr>api_key = key,
         jwt_token = (case token of None \<Rightarrow> JNull | Some t \<Rightarrow> JStr t),
         base_url = rstrip_slash url,
         retry_attempts = attempts,
         retry_delay = delay,
         timeout = tmo,
         session_headers = []\<rparr>))"

section \<open>The request executor\<close>

text \<open>
  \<^verbatim>\<open>request_kwargs\<close>, built anew in every attempt: the multipart branch copies the
  session headers without \<^verbatim>\<open>Content-Type\<close>, the JSON branch needs a truthy body.
  Further keyword arguments of the caller are passed through unchanged and are left out.
\<close>

definition request_kwargs ::
  "client \<Rightarrow> string \<Rightarrow> string \<Rightarrow> (string \<times> json) list option \<Rightarrow> json option
     \<Rightarrow> (string \<times> file_part) list option \<Rightarrow> http_call" where
  "request_kwargs c endpoint method params json_data files =
     (let files_given = (case files of None \<Rightarrow> False | Some fs \<Rightarrow> fs \<noteq> []);
          json_given = (case json_data of None \<Rightarrow> False | Some j \<Rightarrow> truthy j)
      in \<lparr>call_method = method,
          call_url = base_url c @ endpoint,
          call_timeout = timeout c,
          call_params = params,
          call_headers =
            (if files_given
             then Some (filter (\<lambda>h. fst h \<noteq> ''Content-Type'') (session_headers c))
             else None),
          call_files = (if files_given then files else None),
          call_json = (if \<not> files_given \<and> json_given then json_data else None),
          call_session_headers = session_headers c\<rparr>)"

definition is_retryable_error :: "request_exception \<Rightarrow> bool" where
  "is_retryable_error e =
     (case e of ConnectionError _ \<Rightarrow> True | Timeout _ \<Rightarrow> True | HTTPError _ \<Rightarrow> True | _ \<Rightarrow> False)"

text \<open>\<^verbatim>\<open>int(response.headers.get('retry-after', 60))\<close>; \<open>None\<close> is the \<^verbatim>\<open>ValueError\<close>.\<close>

definition retry_after_of :: "response \<Rightarrow> int option" where
  "retry_after_of r =
     (case map_of (resp_headers r) ''retry-after'' of
        None \<Rightarrow> Some 60
      | Some v \<Rightarrow> py_int v)"

text \<open>The message of the 401 branch; only a \<^verbatim>\<open>ValueError\<close> of the parser is caught.\<close>

definition auth_message :: "response \<Rightarrow> error + json" where
  "auth_message r =
     (case resp_json r of
        None \<Rightarrow> Inr (JStr ''Authentication failed'')
      | Some error_data \<Rightarrow>
          (case py_get error_data ''error'' (JObj []) of
             Inl e \<Rightarrow> Inl e
           | Inr info \<Rightarrow> py_get info ''message'' (JStr ''Authentication failed'')))"

text \<open>The exception of the generic branch (\<^verbatim>\<open>not response.ok\<close>).\<close>

definition api_error :: "json \<Rightarrow> int option \<Rightarrow> json \<Rightarrow> json \<Rightarrow> error" where
  "api_error message status code details =
     QAPlatformError message status code (if truthy details then details else JArr [])"

definition failure_of :: "response \<Rightarrow> error" where
  "failure_of r =
     (case resp_json r of
        None \<Rightarrow>
          api_error (JStr (if resp_text r \<noteq> [] then resp_text r else ''Unknown error''))
            (Some (status_code r)) JNull (JArr [])
      | Some error_data \<Rightarrow>
          (case py_get error_data ''error'' (JObj []) of
             Inl e \<Rightarrow> e
           | Inr info \<Rightarrow>
               (case py_get info ''message'' (JStr ''Unknown error'') of
                  Inl e \<Rightarrow> e
                | Inr message \<Rightarrow>
                    (case py_get info ''code'' JNull of
                       Inl e \<Rightarrow> e
                     | Inr code \<Rightarrow>
                         (case py_get info ''details'' (JArr []) of
                            Inl e \<Rightarrow> e
                          | Inr details \<Rightarrow>
                              api_error message (Some (status_code r)) code details)))))"

text \<open>How one pass through the body of the \<^verbatim>\<open>for\<close> loop ends.\<close>

datatype outcome = Continue | Return json | Raise error

text \<open>
  \<^verbatim>\<open>self.retry_delay * (2 ** (attempt - 1))\<close> over exact rationals: the rounding
  of floating point is left out, and so is the \<^verbatim>\<open>OverflowError\<close> of a power too
  large for a float (from attempt 1025 on).
\<close>

definition backoff :: "client \<Rightarrow> int \<Rightarrow> rat" where
  "backoff c attempt = retry_delay c * 2 ^ nat (attempt - 1)"

definition sleep_then_continue :: "rat \<Rightarrow> 'w world \<Rightarrow> outcome \<times> 'w world" where
  "sleep_then_continue d w =
     (case sleep d w of
        (Inl e, w') \<Rightarrow> (Raise e, w')
      | (Inr u, w') \<Rightarrow> (Continue, w'))"

text \<open>
  What follows a received response inside the \<^verbatim>\<open>try\<close>: \<open>Inl\<close> is a
  \<^verbatim>\<open>RequestException\<close> raised there (the library's \<^verbatim>\<open>JSONDecodeError\<close> of a
  successful response whose body is not JSON, a \<^verbatim>\<open>RequestException\<close> in the
  library's current versions), which the handler below receives. The text of that
  exception stands for whatever the parser reports.
\<close>

definition classify :: "client \<Rightarrow> int \<Rightarrow> response \<Rightarrow> 'w world \<Rightarrow> (request_exception + outcome) \<times> 'w world" where
  "classify c attempt r w =
     (if status_code r = 429 then
        (case retry_after_of r of
           None \<Rightarrow> (Inr (Raise ValueError), w)
         | Some retry_after \<Rightarrow>
             if attempt \<le> retry_attempts c
             then (case sleep_then_continue (of_int retry_after) w of (out, w') \<Rightarrow> (Inr out, w'))
             else (Inr (Raise (RateLimitError
                     (JStr ''Rate limit exceeded and max retries reached'') retry_after)), w))
      else if 500 \<le> status_code r \<and> attempt \<le> retry_attempts c then
        (case sleep_then_continue (backoff c attempt) w of (out, w') \<Rightarrow> (Inr out, w'))
      else if status_code r = 401 then
        (case auth_message r of
           Inl e \<Rightarrow> (Inr (Raise e), w)
         | Inr message \<Rightarrow> (Inr (Raise (AuthenticationError message)), w))
      else if \<not> ok r then (Inr (Raise (failure_of r)), w)
      else (case resp_json r of
              None \<Rightarrow> (Inl (JSONDecodeError ''response body is not JSON''), w)
            | Some j \<Rightarrow> (Inr (Return j), w)))"

text \<open>The handler \<^verbatim>\<open>except requests.exceptions.RequestException as e\<close>.\<close>

definition on_request_exception :: "client \<Rightarrow> int \<Rightarrow> request_exception \<Rightarrow> 'w world \<Rightarrow> outcome \<times> 'w world" where
  "on_request_exception c attempt e w =
     (if attempt \<le> retry_attempts c \<and> is_retryable_error e
      then sleep_then_continue (backoff c attempt) w
      else (Raise (QAPlatformError (JStr (''Network error: '' @ exception_text e)) None JNull (JArr [])), w))"

definition request_attempt :: "client \<Rightarrow> 'w transport \<Rightarrow> http_call \<Rightarrow> int \<Rightarrow> 'w world \<Rightarrow> outcome \<times> 'w world" where
  "request_attempt c tr call attempt w =
     (case send tr call w of
        (Inl e, w1) \<Rightarrow> on_request_exception c attempt e w1
      | (Inr r, w1) \<Rightarrow>
          (case classify c attempt r w1 of
             (Inl e, w2) \<Rightarrow> on_request_exception c attempt e w2
           | (Inr out, w2) \<Rightarrow> (out, w2)))"

text \<open>
  The loop \<^verbatim>\<open>for attempt in range(1, self.retry_attempts + 1)\<close> over the attempts
  that are left, and the statement after it.
\<close>

fun request_loop :: "client \<Rightarrow> 'w transport \<Rightarrow> http_call \<Rightarrow> int list \<Rightarrow> 'w world \<Rightarrow> (error + json) \<times> 'w world" where
  "request_loop c tr call [] w =
     (Inl (QAPlatformError (JStr ''Max retries exceeded'') None JNull (JArr [])), w)"
| "request_loop c tr call (attempt # rest) w =
     (case request_attempt c tr call attempt w of
        (Continue, w') \<Rightarrow> request_loop c tr call rest w'
      | (Return j, w') \<Rightarrow> (Inr j, w')
      | (Raise e, w') \<Rightarrow> (Inl e, w'))"

definition request ::
  "client \<Rightarrow> 'w transport \<Rightarrow> string \<Rightarrow> string \<Rightarrow> (string \<times> json) list option \<Rightarrow> json option
     \<Rightarrow> (string \<times> file_part) list option \<Rightarrow> 'w world \<Rightarrow> (error + json) \<times> 'w world" where
  "request c tr endpoint method params json_data files w =
     request_loop c tr (request_kwargs c endpoint method params json_data files)
       [1..retry_attempts c] w"

section \<open>Endpoint methods\<close>

text \<open>
  \<^verbatim>\<open>login\<close> stores the token only when the response has the key
  \<^verbatim>\<open>'token'\<close>; the client is returned as the call leaves it.
\<close>

definition login :: "client \<Rightarrow> 'w transport \<Rightarrow> string \<Rightarrow> string \<Rightarrow> 'w world \<Rightarrow> (error + json) \<times> client \<times> 'w world" where
  "login c tr email password w =
     (case request c tr ''/auth/login'' ''POST'' None
             (Some (JObj [(''email'', JStr email), (''password'', JStr password)])) None w of
        (Inl e, w') \<Rightarrow> (Inl e, c, w')
      | (Inr resp, w') \<Rightarrow>
          (case py_contains resp ''token'' of
             Inl e \<Rightarrow> (Inl e, c, w')
           | Inr False \<Rightarrow> (Inr resp, c, w')
           | Inr True \<Rightarrow>
               (case py_subscript resp ''token'' of
                  Inl e \<Rightarrow> (Inl e, c, w')
                | Inr t \<Rightarrow> (Inr resp, update_auth_headers (c\<lparr>jwt_token := t, api_key := None\<rparr>), w'))))"

definition logout :: "client \<Rightarrow> 'w transport \<Rightarrow> 'w world \<Rightarrow> (error + json) \<times> client \<times> 'w world" where
  "logout c tr w =
     (case request c tr ''/auth/logout'' ''POST'' None None None w of
        (Inl e, w') \<Rightarrow> (Inl e, c, w')
      | (Inr resp, w') \<Rightarrow> (Inr resp, update_auth_headers (c\<lparr>jwt_token := JNull\<rparr>), w'))"

text \<open>\<^verbatim>\<open>get_files\<close> removes the filters whose value is \<^verbatim>\<open>None\<close>, and only those.\<close>

definition clean_filters :: "(string \<times> json) list \<Rightarrow> (string \<times> json) list" where
  "clean_filters filters = filter (\<lambda>kv. snd kv \<noteq> JNull) filters"

definition get_files :: "client \<Rightarrow> 'w transport \<Rightarrow> (string \<times> json) list \<Rightarrow> 'w world \<Rightarrow> (error + json) \<times> 'w world" where
  "get_files c tr filters w = request c tr ''/files'' ''GET'' (Some (clean_filters filters)) None None w"

definition get_api_keys :: "client \<Rightarrow> 'w transport \<Rightarrow> (string \<times> json) list \<Rightarrow> 'w world \<Rightarrow> (error + json) \<times> 'w world" where
  "get_api_keys c tr filters w = request c tr ''/api-keys'' ''GET'' (Some filters) None None w"

text \<open>
  The pairs the HTTP library writes into the query string of a call: it leaves out a
  parameter whose value is \<^verbatim>\<open>None\<close> and encodes every other one, the empty string
  as \<^verbatim>\<open>key=\<close>. This is for scalar values, as the specification has them; a list
  value, which the library writes as one pair per element, is not modelled.
\<close>

definition encoded_query :: "http_call \<Rightarrow> (string \<times> json) list" where
  "encoded_query call =
     (case call_params call of
        None \<Rightarrow> []
      | Some ps \<Rightarrow> filter (\<lambda>kv. snd kv \<noteq> JNull) ps)"

text \<open>
  The headers a call presents: the library starts from the session's headers and lets the
  call's own \<^verbatim>\<open>headers\<close> argument override them.
\<close>

definition presented_headers :: "http_call \<Rightarrow> headers" where
  "presented_headers call =
     (case call_headers call of
        None \<Rightarrow> call_session_headers call
      | Some hs \<Rightarrow> AList.updates (map fst hs) (map snd hs) (call_session_headers call))"

section \<open>Pagination\<close>

text \<open>
  One pass through the body of \<^verbatim>\<open>while True\<close> after the response arrived: the new
  accumulator, the new offset and whether the loop breaks. Every exception of the
  dynamically typed accesses is a branch.
\<close>

definition page_step :: "json \<Rightarrow> int \<Rightarrow> int \<Rightarrow> json list \<Rightarrow> error + (json list \<times> int \<times> bool)" where
  "page_step resp limit offset results =
     (case py_contains resp ''data'' of
        Inl e \<Rightarrow> Inl e
      | Inr False \<Rightarrow> Inr (results, offset, True)
      | Inr True \<Rightarrow>
          (case py_subscript resp ''data'' of
             Inl e \<Rightarrow> Inl e
           | Inr data \<Rightarrow>
               if \<not> truthy data then Inr (results, offset, True)
               else
                 (case py_iter data of
                    Inl e \<Rightarrow> Inl e
                  | Inr items \<Rightarrow>
                      (case py_len data of
                         Inl e \<Rightarrow> Inl e
                       | Inr n \<Rightarrow>
                           if n < limit then Inr (results @ items, offset + limit, True)
                           else
                             (case py_get resp ''pagination'' (JObj []) of
                                Inl e \<Rightarrow> Inl e
                              | Inr pg \<Rightarrow>
                                  (case py_get pg ''total'' (JNum 0) of
                                     Inl e \<Rightarrow> Inl e
                                   | Inr tot \<Rightarrow>
                                       (case py_le_int tot (offset + limit) of
                                          Inl e \<Rightarrow> Inl e
                                        | Inr b \<Rightarrow> Inr (results @ items, offset + limit, b))))))))"

definition page_params :: "(string \<times> json) list \<Rightarrow> int \<Rightarrow> int \<Rightarrow> (string \<times> json) list" where
  "page_params options limit offset =
     AList.update ''offset'' (JNum offset) (AList.update ''limit'' (JNum limit) options)"

text \<open>
  The loop has no bound of its own: \<open>None\<close> is the run that never leaves it.
\<close>

partial_function (option) paginate_loop ::
  "client \<Rightarrow> 'w transport \<Rightarrow> string \<Rightarrow> (string \<times> json) list \<Rightarrow> int \<Rightarrow> int \<Rightarrow> json list \<Rightarrow> 'w world
     \<Rightarrow> ((error + json list) \<times> 'w world) option" where
  "paginate_loop c tr endpoint options limit offset results w =
     (case request c tr endpoint ''GET'' (Some (page_params options limit offset)) None None w of
        (Inl e, w') \<Rightarrow> Some (Inl e, w')
      | (Inr resp, w') \<Rightarrow>
          (case page_step resp limit offset results of
             Inl e \<Rightarrow> Some (Inl e, w')
           | Inr (results', offset', stop) \<Rightarrow>
               if stop then Some (Inr results', w')
               else paginate_loop c tr endpoint options limit offset' results' w'))"

declare paginate_loop.simps [code]

text \<open>
  \<^verbatim>\<open>paginate(endpoint, **options)\<close>: \<open>limit\<close> is the integer popped from the
  options (\<open>None\<close> when the caller gave none), \<open>options\<close> the rest.
\<close>

definition paginate ::
  "client \<Rightarrow> 'w transport \<Rightarrow> string \<Rightarrow> int option \<Rightarrow> (string \<times> json) list \<Rightarrow> 'w world
     \<Rightarrow> ((error + json list) \<times> 'w world) option" where
  "paginate c tr endpoint limit options w =
     paginate_loop c tr endpoint options (case limit of None \<Rightarrow> 20 | Some l \<Rightarrow> l) 0 [] w"

section \<open>Webhook signatures\<close>

text \<open>
  A Python string is a list of code points, a byte string a list of bytes.
  \<^verbatim>\<open>secret.encode('utf-8')\<close> raises on a surrogate.
\<close>

type_synonym unicode = "nat list"

type_synonym bytes = "8 word list"

definition utf8_char :: "nat \<Rightarrow> bytes option" where
  "utf8_char c =
     (if c < 0x80 then Some [of_nat c]
      else if c < 0x800 then Some [of_nat (0xC0 + c div 64), of_nat (0x80 + c mod 64)]
      else if 0xD800 \<le> c \<and> c \<le> 0xDFFF then None
      else if c < 0x10000 then
        Some [of_nat (0xE0 + c div 4096), of_nat (0x80 + c div 64 mod 64), of_nat (0x80 + c mod 64)]
      else if c < 0x110000 then
        Some [of_nat (0xF0 + c div 262144), of_nat (0x80 + c div 4096 mod 64),
              of_nat (0x80 + c div 64 mod 64), of_nat (0x80 + c mod 64)]
      else None)"

fun encode_utf8 :: "unicode \<Rightarrow> error + bytes" where
  "encode_utf8 [] = Inr []"
| "encode_utf8 (c # cs) =
     (case utf8_char c of
        None \<Rightarrow> Inl UnicodeEncodeError
      | Some bs \<Rightarrow> (case encode_utf8 cs of Inl e \<Rightarrow> Inl e | Inr rest \<Rightarrow> Inr (bs @ rest)))"

definition hex_digit :: "nat \<Rightarrow> nat" where
  "hex_digit d = (if d < 10 then 48 + d else 87 + d)"

definition hexdigest :: "bytes \<Rightarrow> unicode" where
  "hexdigest bs = concat (map (\<lambda>b. [hex_digit (unat b div 16), hex_digit (unat b mod 16)]) bs)"

definition is_ascii :: "unicode \<Rightarrow> bool" where
  "is_ascii s = list_all (\<lambda>c. c < 128) s"

text \<open>
  \<^verbatim>\<open>hmac.compare_digest\<close> on two strings: equality, and a \<^verbatim>\<open>TypeError\<close> when
  either holds a character outside ASCII.
\<close>

definition compare_digest :: "unicode \<Rightarrow> unicode \<Rightarrow> error + bool" where
  "compare_digest a b = (if is_ascii a \<and> is_ascii b then Inr (a = b) else Inl TypeError)"

text \<open>
  The keyed hash \<^verbatim>\<open>hmac.new(key, msg, hashlib.sha256).digest()\<close> belongs to the
  standard library; the verifier takes it as the parameter \<open>hmac_digest\<close>.
\<close>

definition validate_webhook_signature ::
  "(bytes \<Rightarrow> bytes \<Rightarrow> bytes) \<Rightarrow> bytes \<Rightarrow> unicode \<Rightarrow> unicode \<Rightarrow> error + bool" where
  "validate_webhook_signature hmac_digest payload signature secret =
     (case encode_utf8 secret of
        Inl e \<Rightarrow> Inl e
      | Inr key \<Rightarrow> compare_digest signature (hexdigest (hmac_digest key payload)))"

section \<open>Observations and concrete environments\<close>

text \<open>What a log shows: the lengths slept and the calls sent, each in order.\<close>

fun sleeps :: "event list \<Rightarrow> rat list" where
  "sleeps [] = []"
| "sleeps (Sent call # evs) = sleeps evs"
| "sleeps (Slept d # evs) = d # sleeps evs"

fun calls :: "event list \<Rightarrow> http_call list" where
  "calls [] = []"
| "calls (Sent call # evs) = call # calls evs"
| "calls (Slept d # evs) = calls evs"

text \<open>A remote side that answers every call with a response of status \<open>n\<close>.\<close>

definition answers_with_status :: "'w transport \<Rightarrow> int \<Rightarrow> bool" where
  "answers_with_status tr n = (\<forall>s call. \<exists>r s'. tr s call = (Inr r, s') \<and> status_code r = n)"

definition max_retries_exceeded :: error where
  "max_retries_exceeded = QAPlatformError (JStr ''Max retries exceeded'') None JNull (JArr [])"

text \<open>
  Environments for the concrete runs: a stateless remote side that gives every call the
  same response, an empty world, and a client built as the constructor builds it from an
  API key, \<open>n\<close> retry attempts and the base delay \<open>d\<close>.
\<close>

definition answer_with :: "response \<Rightarrow> unit transport" where
  "answer_with r = (\<lambda>s call. (Inr r, s))"

definition start :: "unit world" where
  "start = \<lparr>remote = (), log = []\<rparr>"

definition key_client :: "int \<Rightarrow> rat \<Rightarrow> client" where
  "key_client n d =
     \<lparr>api_key = Some ''secret-key'', jwt_token = JNull, base_url = ''http://localhost:3001/api/v1'',
      retry_attempts = n, retry_delay = d, timeout = 30,
      session_headers = default_headers @ [(''X-API-Key'', Literal ''secret-key'')]\<rparr>"

definition health_call :: "client \<Rightarrow> http_call" where
  "health_call c = request_kwargs c ''/health'' ''GET'' None None None"

definition status_only :: "int \<Rightarrow> response" where
  "status_only n = \<lparr>status_code = n, resp_headers = [], resp_text = [], resp_json = None\<rparr>"

definition rate_limited :: "string \<Rightarrow> response" where
  "rate_limited v =
     \<lparr>status_code = 429, resp_headers = [(''retry-after'', v)], resp_text = [], resp_json = None\<rparr>"

definition unauthorized :: "json option \<Rightarrow> response" where
  "unauthorized body = \<lparr>status_code = 401, resp_headers = [], resp_text = [], resp_json = body\<rparr>"

text \<open>A successful response with a JSON body, and a login against a given remote side.\<close>

definition ok_json :: "json \<Rightarrow> response" where
  "ok_json j = \<lparr>status_code = 200, resp_headers = [], resp_text = [], resp_json = Some j\<rparr>"

definition login_as :: "client \<Rightarrow> unit transport \<Rightarrow> (error + json) \<times> client \<times> unit world" where
  "login_as c tr = login c tr ''user@example.com'' ''password'' start"

text \<open>
  A remote collection for the pagination runs: it answers a call with the slice of its
  items that the call's \<^verbatim>\<open>limit\<close> and \<^verbatim>\<open>offset\<close> select, with the total in
  \<^verbatim>\<open>pagination.total\<close>.
\<close>

definition int_param :: "http_call \<Rightarrow> string \<Rightarrow> int \<Rightarrow> int" where
  "int_param call k d =
     (case call_params call of
        None \<Rightarrow> d
      | Some ps \<Rightarrow> (case map_of ps k of Some (JNum n) \<Rightarrow> n | _ \<Rightarrow> d))"

definition slice :: "http_call \<Rightarrow> json list \<Rightarrow> json list" where
  "slice call items =
     take (nat (int_param call ''limit'' 20)) (drop (nat (int_param call ''offset'' 0)) items)"

definition collection_server :: "json list \<Rightarrow> unit transport" where
  "collection_server items =
     (\<lambda>s call. (Inr (ok_json (JObj [(''data'', JArr (slice call items)),
                                     (''pagination'', JObj [(''total'', JNum (int (length items)))])])), s))"

definition numbered :: "int \<Rightarrow> int \<Rightarrow> json list" where
  "numbered i j = map JNum [i..j]"

definition page_call :: "client \<Rightarrow> int \<Rightarrow> int \<Rightarrow> http_call" where
  "page_call c limit offset =
     request_kwargs c ''/files'' ''GET'' (Some [(''limit'', JNum limit), (''offset'', JNum offset)]) None None"

text \<open>
  A stand-in for the library's keyed hash in the concrete runs of the verifier, which
  only compares the hex digest of whatever the hash returns: the first 32 bytes of key,
  message and padding.
\<close>

definition stand_in_mac :: "bytes \<Rightarrow> bytes \<Rightarrow> bytes" where
  "stand_in_mac key msg = take 32 (key @ msg @ replicate 32 0)"

definition whsec :: unicode where
  "whsec = [119, 104, 115, 101, 99]"

text \<open>
  The documented shape of a page, in the words of the specification: an object whose
  \<^verbatim>\<open>data\<close> is an array, with the collection's size in \<^verbatim>\<open>pagination.total\<close>;
  a response without \<^verbatim>\<open>data\<close>, or with an empty one, is a page of no items.
  \<open>documented_page\<close> reads a response as the pair of its items and its total.
\<close>

definition documented_page :: "json \<Rightarrow> (json list \<times> int) option" where
  "documented_page resp =
     (case resp of
        JObj kvs \<Rightarrow>
          (case map_of kvs ''data'' of
             None \<Rightarrow> Some ([], 0)
           | Some (JArr []) \<Rightarrow> Some ([], 0)
           | Some (JArr (x # xs)) \<Rightarrow>
               (case map_of kvs ''pagination'' of
                  Some (JObj pg) \<Rightarrow>
                    (case map_of pg ''total'' of Some (JNum t) \<Rightarrow> Some (x # xs, t) | _ \<Rightarrow> None)
                | _ \<Rightarrow> None)
           | _ \<Rightarrow> None)
      | _ \<Rightarrow> None)"

text \<open>
  The specification's condition for the last page: no items, fewer items than
  \<open>limit\<close>, or a total that is at most the new offset.
\<close>

definition last_page :: "int \<Rightarrow> int \<Rightarrow> json list \<times> int \<Rightarrow> bool" where
  "last_page limit offset p = (fst p = [] \<or> int (length (fst p)) < limit \<or> snd p \<le> offset + limit)"

text \<open>
  \<open>pages_continue \<dots> offset w ps w'\<close>: from the world \<open>w\<close>, the requests at
  \<open>offset\<close>, \<open>offset + limit\<close>, ... are answered with the documented pages \<open>ps\<close>,
  none of them a last page, and leave the world \<open>w'\<close>.
\<close>

fun pages_continue ::
  "client \<Rightarrow> 'w transport \<Rightarrow> string \<Rightarrow> (string \<times> json) list \<Rightarrow> int \<Rightarrow> int \<Rightarrow> 'w world
     \<Rightarrow> (json list \<times> int) list \<Rightarrow> 'w world \<Rightarrow> bool" where
  "pages_continue c tr endpoint options limit offset w [] w' = (w' = w)"
| "pages_continue c tr endpoint options limit offset w (p # ps) w' =
     (case request c tr endpoint ''GET'' (Some (page_params options limit offset)) None None w of
        (Inl e, w1) \<Rightarrow> False
      | (Inr resp, w1) \<Rightarrow>
          documented_page resp = Some p \<and> \<not> last_page limit offset p
          \<and> pages_continue c tr endpoint options limit (offset + limit) w1 ps w')"

text \<open>The page size \<^verbatim>\<open>options.pop('limit', 20)\<close>.\<close>

definition page_size :: "int option \<Rightarrow> int" where
  "page_size limit = (case limit of None \<Rightarrow> 20 | Some l \<Rightarrow> l)"

text \<open>A remote side that gives the responses of its state in turn, one per call.\<close>

definition in_turn :: "response list transport" where
  "in_turn = (\<lambda>rs call. case rs of [] \<Rightarrow> (Inl (ConnectionError ''no response left''), [])
                                   | r # rest \<Rightarrow> (Inr r, rest))"

section \<open>Retries and error classification\<close>

lemma sleeps_append: "sleeps (xs @ ys) = sleeps xs @ sleeps ys"
  by (induction xs rule: sleeps.induct) simp_all

lemma calls_append: "calls (xs @ ys) = calls xs @ calls ys"
  by (induction xs rule: calls.induct) simp_all

lemma init_key_client:
  "init (Some ''secret-key'') None ''http://localhost:3001/api/v1/'' n d 30 = Inr (key_client n d)"
  by (simp add: init_def truthy_key_def update_auth_headers_def rstrip_slash_def key_client_def)

lemma attempts_within_budget: "list_all (\<lambda>a. a \<le> n) [1..n]"
  by (simp add: list_all_iff)

lemma first_attempt: "1 \<le> n \<Longrightarrow> [1..n] = 1 # [2..n]"
  by (simp add: upto.simps)

lemma backoff_nonneg: "0 \<le> retry_delay c \<Longrightarrow> 0 \<le> backoff c attempt"
  by (simp add: backoff_def)

lemma sleep_then_continue_fst:
  "fst (sleep_then_continue d w) = Raise ValueError \<or> fst (sleep_then_continue d w) = Continue"
  by (simp add: sleep_then_continue_def sleep_def)

lemmas run_defs = request_def request_attempt_def send_def classify_def sleep_then_continue_def
  sleep_def backoff_def retry_after_of_def answer_with_def start_def upto.simps

subsection \<open>Server errors\<close>

lemma request_attempt_server_error:
  assumes "tr (remote w) call = (Inr r, s)" and "500 \<le> status_code r" and "status_code r \<noteq> 429"
    and "attempt \<le> retry_attempts c" and "0 \<le> backoff c attempt"
  shows "request_attempt c tr call attempt w =
           (Continue, w\<lparr>remote := s, log := log w @ [Sent call, Slept (backoff c attempt)]\<rparr>)"
  using assms
  by (simp add: request_attempt_def send_def classify_def sleep_then_continue_def sleep_def)

lemma request_loop_server_error:
  assumes srv: "answers_with_status tr 500"
    and d: "0 \<le> retry_delay c"
  shows "list_all (\<lambda>a. a \<le> retry_attempts c) as \<Longrightarrow>
         \<exists>w'. request_loop c tr call as w = (Inl max_retries_exceeded, w')
             \<and> sleeps (log w') = sleeps (log w) @ map (backoff c) as
             \<and> calls (log w') = calls (log w) @ replicate (length as) call"
proof (induction as arbitrary: w)
  case Nil
  then show ?case by (simp add: max_retries_exceeded_def)
next
  case (Cons a as)
  obtain r s where rs: "tr (remote w) call = (Inr r, s)" "status_code r = 500"
    using srv unfolding answers_with_status_def by blast
  let ?w1 = "w\<lparr>remote := s, log := log w @ [Sent call, Slept (backoff c a)]\<rparr>"
  have "a \<le> retry_attempts c" using Cons.prems by simp
  then have step: "request_attempt c tr call a w = (Continue, ?w1)"
    using rs d by (simp add: request_attempt_server_error backoff_nonneg)
  from Cons.prems have "list_all (\<lambda>a. a \<le> retry_attempts c) as" by simp
  from Cons.IH [OF this, of ?w1] obtain w' where
    w': "request_loop c tr call as ?w1 = (Inl max_retries_exceeded, w')"
      "sleeps (log w') = sleeps (log ?w1) @ map (backoff c) as"
      "calls (log w') = calls (log ?w1) @ replicate (length as) call"
    by blast
  show ?case
    using step w' by (simp add: sleeps_append calls_append replicate_append_same)
qed

text \<open>
  Claim C1, evaluated on the code. With a remote side that answers every call with
  status 500 and a base delay \<open>D \<ge> 0\<close>, \<^verbatim>\<open>request\<close> sends \<open>N\<close> calls and sleeps
  \<open>D\<close>, \<open>2D\<close>, \<open>4D\<close>, ... (\<open>D \<times> 2^(k-1)\<close> after call \<open>k\<close>), as the claim says; but the
  loop runs over the attempts \<open>1..N\<close> only, so no call follows the last sleep and the
  failure is the statement after the loop, \<^verbatim>\<open>QAPlatformError("Max retries exceeded")\<close>
  with no status code, not the error built from the server's response.
\<close>

theorem server_errors_exhaust_retries:
  assumes srv: "answers_with_status tr 500"
    and d: "0 \<le> retry_delay c"
  shows "\<exists>w'. request c tr endpoint verb params json_data files w = (Inl max_retries_exceeded, w')
             \<and> sleeps (log w') = sleeps (log w) @ map (backoff c) [1..retry_attempts c]
             \<and> length (calls (log w')) = length (calls (log w)) + nat (retry_attempts c)"
proof -
  from request_loop_server_error [OF srv d attempts_within_budget,
      where call = "request_kwargs c endpoint verb params json_data files" and w = w]
  show ?thesis unfolding request_def by auto
qed

theorem server_errors_exhaust_retries_witness:
  "answers_with_status (answer_with (status_only 500)) 500
   \<and> 0 \<le> retry_delay (key_client 3 1)
   \<and> request (key_client 3 1) (answer_with (status_only 500)) ''/health'' ''GET'' None None None start
       = (Inl (QAPlatformError (JStr ''Max retries exceeded'') None JNull (JArr [])),
          \<lparr>remote = (),
           log = [Sent (health_call (key_client 3 1)), Slept 1,
                  Sent (health_call (key_client 3 1)), Slept 2,
                  Sent (health_call (key_client 3 1)), Slept 4]\<rparr>)"
proof -
  have srv: "answers_with_status (answer_with (status_only 500)) 500"
    by (simp add: answers_with_status_def answer_with_def status_only_def)
  have d: "0 \<le> retry_delay (key_client 3 1)"
    by (simp add: key_client_def)
  have run: "request (key_client 3 1) (answer_with (status_only 500)) ''/health'' ''GET'' None None None start
       = (Inl (QAPlatformError (JStr ''Max retries exceeded'') None JNull (JArr [])),
          \<lparr>remote = (),
           log = [Sent (health_call (key_client 3 1)), Slept 1,
                  Sent (health_call (key_client 3 1)), Slept 2,
                  Sent (health_call (key_client 3 1)), Slept 4]\<rparr>)"
    using server_errors_exhaust_retries [OF srv d, where endpoint = "''/health''" and verb = "''GET''"
        and params = None and json_data = None and files = None and w = start]
    by (simp add: run_defs status_only_def health_call_def key_client_def)
  from srv d run show ?thesis by (intro conjI)
qed

subsection \<open>Rate limits\<close>

lemma py_get_error: "py_get x k d = Inl e \<Longrightarrow> e = AttributeError"
  by (cases x) simp_all

lemma auth_message_error: "auth_message r = Inl e \<Longrightarrow> e = AttributeError"
  by (auto simp: auth_message_def split: option.splits sum.splits dest: py_get_error)

lemma failure_of_not_rate_limit: "failure_of r \<noteq> RateLimitError m ra"
  by (auto simp: failure_of_def api_error_def split: option.splits sum.splits dest: py_get_error)

lemma classify_not_rate_limit:
  assumes "attempt \<le> retry_attempts c"
  shows "fst (classify c attempt r w) \<noteq> Inr (Raise (RateLimitError m ra))"
proof -
  consider (limited) "status_code r = 429"
    | (server) "status_code r \<noteq> 429" "500 \<le> status_code r"
    | (auth) "status_code r = 401"
    | (other) "status_code r \<noteq> 429" "\<not> 500 \<le> status_code r" "status_code r \<noteq> 401"
    by linarith
  then show ?thesis
  proof cases
    case limited
    show ?thesis
    proof (cases "retry_after_of r")
      case None
      with limited show ?thesis by (simp add: classify_def)
    next
      case (Some n)
      with limited assms sleep_then_continue_fst [of "of_int n" w] show ?thesis
        by (auto simp: classify_def split_beta)
    qed
  next
    case server
    with assms sleep_then_continue_fst [of "backoff c attempt" w] show ?thesis
      by (auto simp: classify_def split_beta)
  next
    case auth
    then show ?thesis
      by (auto simp: classify_def split: sum.splits dest: auth_message_error)
  next
    case other
    then show ?thesis
      by (auto simp: classify_def failure_of_not_rate_limit split: option.splits)
  qed
qed

lemma on_request_exception_not_rate_limit:
  "fst (on_request_exception c attempt e w) \<noteq> Raise (RateLimitError m ra)"
  using sleep_then_continue_fst [of "backoff c attempt" w]
  by (auto simp: on_request_exception_def)

lemma request_attempt_not_rate_limit:
  assumes "attempt \<le> retry_attempts c"
  shows "fst (request_attempt c tr call attempt w) \<noteq> Raise (RateLimitError m ra)"
proof (cases "send tr call w")
  case (Pair x w1)
  show ?thesis
  proof (cases x)
    case (Inl e)
    with Pair show ?thesis
      using on_request_exception_not_rate_limit [of c attempt e w1 m ra]
      by (simp add: request_attempt_def)
  next
    case (Inr r)
    obtain y w2 where y: "classify c attempt r w1 = (y, w2)" by (cases "classify c attempt r w1")
    show ?thesis
    proof (cases y)
      case (Inl e)
      with Pair Inr y show ?thesis
        using on_request_exception_not_rate_limit [of c attempt e w2 m ra]
        by (simp add: request_attempt_def)
    next
      case (Inr out)
      with Pair \<open>x = Inr r\<close> y show ?thesis
        using classify_not_rate_limit [OF assms, of r w1 m ra]
        by (simp add: request_attempt_def)
    qed
  qed
qed

lemma request_loop_not_rate_limit:
  "list_all (\<lambda>a. a \<le> retry_attempts c) as \<Longrightarrow>
   fst (request_loop c tr call as w) \<noteq> Inl (RateLimitError m ra)"
proof (induction as arbitrary: w)
  case Nil
  then show ?case by simp
next
  case (Cons a as)
  then have a: "a \<le> retry_attempts c" and as: "list_all (\<lambda>a. a \<le> retry_attempts c) as"
    by simp_all
  obtain out w1 where step: "request_attempt c tr call a w = (out, w1)"
    by (cases "request_attempt c tr call a w")
  show ?case
    using step request_attempt_not_rate_limit [OF a, of tr call w m ra] Cons.IH [OF as, of w1]
    by (cases out) simp_all
qed

text \<open>
  Inside the loop \<^verbatim>\<open>attempt <= self.retry_attempts\<close> always holds, so the branch that
  raises \<^verbatim>\<open>RateLimitError\<close> is never taken: no run of \<^verbatim>\<open>request\<close> ends with it.
\<close>

lemma request_never_rate_limit_error:
  "fst (request c tr endpoint verb params json_data files w) \<noteq> Inl (RateLimitError m ra)"
  unfolding request_def by (rule request_loop_not_rate_limit [OF attempts_within_budget])

lemma py_int_5: "py_int ''5'' = Some 5"
  by (simp add: py_int_def strip_def is_space_def is_digit_def digit_val_def)

lemma py_int_abc: "py_int ''abc'' = None"
  by (simp add: py_int_def strip_def is_space_def is_digit_def digit_val_def)

lemma rate_limited_two_attempts:
  "request (key_client 2 1) (answer_with (rate_limited ''5'')) ''/health'' ''GET'' None None None start
     = (Inl max_retries_exceeded,
        \<lparr>remote = (), log = [Sent (health_call (key_client 2 1)), Slept 5,
                             Sent (health_call (key_client 2 1)), Slept 5]\<rparr>)"
  by (simp add: run_defs max_retries_exceeded_def rate_limited_def py_int_5 health_call_def key_client_def)

text \<open>
  Claim C2, evaluated on the code at its own example: zero retry attempts and a remote
  side that answers 429 with \<^verbatim>\<open>retry-after: 5\<close>. The loop body never runs: no call is
  sent, nothing is slept, and the failure is
  \<^verbatim>\<open>QAPlatformError("Max retries exceeded")\<close>, not \<^verbatim>\<open>RateLimitError\<close> with
  \<^verbatim>\<open>retry_after = 5\<close>.
\<close>

theorem rate_limited_without_retries:
  "request (key_client 0 1) (answer_with (rate_limited ''5'')) ''/health'' ''GET'' None None None start
     = (Inl (QAPlatformError (JStr ''Max retries exceeded'') None JNull (JArr [])),
        \<lparr>remote = (), log = []\<rparr>)"
  by (simp add: request_def key_client_def start_def upto.simps)

lemma retry_after_missing:
  "map_of (resp_headers r) ''retry-after'' = None \<Longrightarrow> retry_after_of r = Some 60"
  by (simp add: retry_after_of_def)

text \<open>
  A negative \<^verbatim>\<open>retry-after\<close> is an integer, but \<^verbatim>\<open>time.sleep\<close> refuses it:
  the same uncaught \<^verbatim>\<open>ValueError\<close>, one statement later.
\<close>

lemma py_int_minus_5: "py_int ''-5'' = Some (- 5)"
  by (simp add: py_int_def strip_def is_space_def is_digit_def digit_val_def)

lemma negative_retry_after:
  "request (key_client 3 1) (answer_with (rate_limited ''-5'')) ''/health'' ''GET'' None None None start
     = (Inl ValueError, \<lparr>remote = (), log = [Sent (health_call (key_client 3 1))]\<rparr>)"
  by (simp add: run_defs rate_limited_def py_int_minus_5 health_call_def key_client_def)

text \<open>
  Claim C7, evaluated on the code: a 429 response whose \<^verbatim>\<open>retry-after\<close> header is
  not an integer. The default of 60 is used for a missing header only; here \<^verbatim>\<open>int\<close>
  raises \<^verbatim>\<open>ValueError\<close>, which no handler of \<^verbatim>\<open>request\<close> catches, after one call
  and no sleep.
\<close>

theorem unparsable_retry_after:
  "request (key_client 3 1) (answer_with (rate_limited ''abc'')) ''/health'' ''GET'' None None None start
     = (Inl ValueError, \<lparr>remote = (), log = [Sent (health_call (key_client 3 1))]\<rparr>)"
  by (simp add: run_defs rate_limited_def py_int_abc health_call_def key_client_def)

subsection \<open>Authentication failures\<close>

lemma request_loop_unauthorized:
  assumes "tr (remote w) call = (Inr r, s)" and "status_code r = 401"
  shows "request_loop c tr call (attempt # rest) w =
           (Inl (case auth_message r of Inl e \<Rightarrow> e | Inr m \<Rightarrow> AuthenticationError m),
            w\<lparr>remote := s, log := log w @ [Sent call]\<rparr>)"
  using assms
  by (simp add: request_attempt_def send_def classify_def split: sum.splits)

lemma auth_message_unparsable:
  "resp_json r = None \<Longrightarrow> auth_message r = Inr (JStr ''Authentication failed'')"
  by (simp add: auth_message_def)

lemma auth_message_parsed:
  "resp_json r = Some (JObj kvs) \<Longrightarrow> map_of kvs ''error'' = Some (JObj info) \<Longrightarrow>
   map_of info ''message'' = Some m \<Longrightarrow> auth_message r = Inr m"
  by (simp add: auth_message_def)

text \<open>
  Whatever the number of retry attempts, an attempt that receives a 401 response ends the
  loop at once: the call is the last event of the log (no sleep, no further call). The
  failure is \<^verbatim>\<open>AuthenticationError\<close> with the body's \<^verbatim>\<open>error.message\<close> when
  the body has the documented shape, and with \<^verbatim>\<open>"Authentication failed"\<close> when
  the body is not JSON. Stated for \<^verbatim>\<open>request\<close> when the first response is the 401,
  and for the loop at any attempt \<open>attempt\<close> with any attempts \<open>rest\<close> left.
\<close>

lemma unauthorized_never_retried:
  assumes first: "1 \<le> retry_attempts c"
    and resp: "tr (remote w) (request_kwargs c endpoint verb params json_data files) = (Inr r, s)"
    and status: "status_code r = 401"
  shows "\<exists>e. request c tr endpoint verb params json_data files w =
               (Inl e, w\<lparr>remote := s, log := log w @ [Sent (request_kwargs c endpoint verb params json_data files)]\<rparr>)
          \<and> request_loop c tr (request_kwargs c endpoint verb params json_data files) (attempt # rest) w =
               (Inl e, w\<lparr>remote := s, log := log w @ [Sent (request_kwargs c endpoint verb params json_data files)]\<rparr>)
          \<and> (resp_json r = None \<longrightarrow> e = AuthenticationError (JStr ''Authentication failed''))
          \<and> (\<forall>kvs info m. resp_json r = Some (JObj kvs) \<and> map_of kvs ''error'' = Some (JObj info)
                 \<and> map_of info ''message'' = Some m \<longrightarrow> e = AuthenticationError m)"
proof -
  let ?call = "request_kwargs c endpoint verb params json_data files"
  let ?e = "case auth_message r of Inl e \<Rightarrow> e | Inr m \<Rightarrow> AuthenticationError m"
  have loop: "request_loop c tr ?call (a # as) w = (Inl ?e, w\<lparr>remote := s, log := log w @ [Sent ?call]\<rparr>)" for a as
    by (rule request_loop_unauthorized [where tr = tr and w = w and call = ?call, OF resp status])
  have req: "request c tr endpoint verb params json_data files w =
          (Inl ?e, w\<lparr>remote := s, log := log w @ [Sent ?call]\<rparr>)"
    unfolding request_def first_attempt [OF first] by (rule loop)
  have unparsable: "resp_json r = None \<longrightarrow> ?e = AuthenticationError (JStr ''Authentication failed'')"
    by (simp add: auth_message_unparsable)
  have parsed: "\<forall>kvs info m. resp_json r = Some (JObj kvs) \<and> map_of kvs ''error'' = Some (JObj info)
                 \<and> map_of info ''message'' = Some m \<longrightarrow> ?e = AuthenticationError m"
    by (auto simp: auth_message_parsed)
  show ?thesis
    by (rule exI [where x = ?e]) (intro conjI req loop unparsable parsed)
qed

lemma unauthorized_never_retried_instance:
  "(1::int) \<le> retry_attempts (key_client 3 1)
   \<and> answer_with (unauthorized (Some (JObj [(''error'', JObj [(''message'', JStr ''expired'')])])))
        (remote start) (health_call (key_client 3 1))
       = (Inr (unauthorized (Some (JObj [(''error'', JObj [(''message'', JStr ''expired'')])]))), ())
   \<and> status_code (unauthorized (Some (JObj [(''error'', JObj [(''message'', JStr ''expired'')])]))) = 401
   \<and> request (key_client 3 1)
        (answer_with (unauthorized (Some (JObj [(''error'', JObj [(''message'', JStr ''expired'')])]))))
        ''/health'' ''GET'' None None None start
       = (Inl (AuthenticationError (JStr ''expired'')),
          \<lparr>remote = (), log = [Sent (health_call (key_client 3 1))]\<rparr>)"
proof -
  let ?r = "unauthorized (Some (JObj [(''error'', JObj [(''message'', JStr ''expired'')])]))"
  have n: "(1::int) \<le> retry_attempts (key_client 3 1)"
    by (simp add: key_client_def)
  have resp: "answer_with ?r (remote start)
                (request_kwargs (key_client 3 1) ''/health'' ''GET'' None None None) = (Inr ?r, ())"
    by (simp add: answer_with_def)
  have st: "status_code ?r = 401" by (simp add: unauthorized_def)
  from unauthorized_never_retried [where c = "key_client 3 1" and tr = "answer_with ?r" and w = start
      and endpoint = "''/health''" and verb = "''GET''" and params = None and json_data = None
      and files = None and r = ?r and s = "()" and attempt = 1 and rest = "[]", OF n resp st]
  show ?thesis
    using n resp st by (auto simp: unauthorized_def health_call_def start_def)
qed

text \<open>
  Claim C6, evaluated on the code: a 401 response whose JSON body is
  \<^verbatim>\<open>{"error": "Unauthorized"}\<close>. The 401 is not retried (one call, no sleep), but
  \<^verbatim>\<open>error_data.get('error', {})\<close> is the string, which has no \<^verbatim>\<open>get\<close>: the
  \<^verbatim>\<open>AttributeError\<close> is not the \<^verbatim>\<open>ValueError\<close> the branch catches, and it
  leaves \<^verbatim>\<open>request\<close> in place of \<^verbatim>\<open>AuthenticationError\<close>.
\<close>

theorem unauthorized_error_string:
  "request (key_client 3 1) (answer_with (unauthorized (Some (JObj [(''error'', JStr ''Unauthorized'')]))))
     ''/health'' ''GET'' None None None start
     = (Inl AttributeError, \<lparr>remote = (), log = [Sent (health_call (key_client 3 1))]\<rparr>)"
  by (simp add: run_defs unauthorized_def auth_message_def health_call_def key_client_def)

lemma unauthorized_not_an_object:
  assumes "body = JNull \<or> body = JArr xs \<or> body = JStr s"
  shows "request (key_client 3 1) (answer_with (unauthorized (Some body))) ''/health'' ''GET'' None None None start
     = (Inl AttributeError, \<lparr>remote = (), log = [Sent (health_call (key_client 3 1))]\<rparr>)"
  using assms by (auto simp: run_defs unauthorized_def auth_message_def health_call_def key_client_def)

section \<open>What a request sends\<close>

text \<open>Every call that \<^verbatim>\<open>request\<close> sends is the one built from its arguments.\<close>

lemma sleep_then_continue_calls: "calls (log (snd (sleep_then_continue d w))) = calls (log w)"
  by (simp add: sleep_then_continue_def sleep_def calls_append)

lemma classify_calls: "calls (log (snd (classify c attempt r w))) = calls (log w)"
  by (simp add: classify_def sleep_then_continue_calls split_beta split: option.splits sum.splits)

lemma on_request_exception_calls:
  "calls (log (snd (on_request_exception c attempt e w))) = calls (log w)"
  by (simp add: on_request_exception_def sleep_then_continue_calls)

lemma send_calls: "calls (log (snd (send tr call w))) = calls (log w) @ [call]"
  by (simp add: send_def split_beta calls_append)

lemma request_attempt_calls:
  "calls (log (snd (request_attempt c tr call attempt w))) = calls (log w) @ [call]"
proof (cases "send tr call w")
  case (Pair x w1)
  then have w1: "calls (log w1) = calls (log w) @ [call]"
    using send_calls [of tr call w] by simp
  show ?thesis
  proof (cases x)
    case (Inl e)
    with Pair w1 show ?thesis
      by (simp add: request_attempt_def on_request_exception_calls)
  next
    case (Inr r)
    obtain y w_next where y: "classify c attempt r w1 = (y, w_next)" by (cases "classify c attempt r w1")
    then have w_next: "calls (log w_next) = calls (log w1)"
      using classify_calls [of c attempt r w1] by simp
    from Pair Inr y w1 w_next show ?thesis
      by (cases y) (simp_all add: request_attempt_def on_request_exception_calls)
  qed
qed

lemma request_loop_calls:
  "\<exists>n. calls (log (snd (request_loop c tr call as w))) = calls (log w) @ replicate n call"
proof (induction as arbitrary: w)
  case Nil
  show ?case by (rule exI [where x = 0]) simp
next
  case (Cons a as)
  obtain out w1 where step: "request_attempt c tr call a w = (out, w1)"
    by (cases "request_attempt c tr call a w")
  then have w1: "calls (log w1) = calls (log w) @ [call]"
    using request_attempt_calls [of c tr call a w] by simp
  show ?case
  proof (cases out)
    case Continue
    from Cons.IH [of w1] obtain n where
      "calls (log (snd (request_loop c tr call as w1))) = calls (log w1) @ replicate n call" ..
    with step Continue w1 have
      "calls (log (snd (request_loop c tr call (a # as) w))) = calls (log w) @ replicate (Suc n) call"
      by simp
    then show ?thesis ..
  next
    case (Return j)
    with step w1 have
      "calls (log (snd (request_loop c tr call (a # as) w))) = calls (log w) @ replicate (Suc 0) call"
      by simp
    then show ?thesis ..
  next
    case (Raise e)
    with step w1 have
      "calls (log (snd (request_loop c tr call (a # as) w))) = calls (log w) @ replicate (Suc 0) call"
      by simp
    then show ?thesis ..
  qed
qed

lemma request_calls:
  "\<exists>n. calls (log (snd (request c tr endpoint verb params json_data files w)))
         = calls (log w) @ replicate n (request_kwargs c endpoint verb params json_data files)"
  unfolding request_def by (rule request_loop_calls)

section \<open>Login\<close>

lemma bearer_presented:
  assumes "session_headers c = default_headers @ [(''Authorization'', Bearer t)]"
  shows "map_of (presented_headers (request_kwargs c endpoint verb params json_data files)) ''Authorization''
           = Some (Bearer t)
       \<and> map_of (presented_headers (request_kwargs c endpoint verb params json_data files)) ''X-API-Key''
           = None"
  using assms
  by (simp add: presented_headers_def request_kwargs_def default_headers_def Let_def)

text \<open>
  Claim C5, as amended. After a login whose response holds a truthy (non-empty) value
  under \<^verbatim>\<open>'token'\<close>, the client holds that token and no API key, and every call
  of every later \<^verbatim>\<open>request\<close> on it presents
  \<^verbatim>\<open>Authorization: Bearer <token>\<close> and no \<^verbatim>\<open>X-API-Key\<close>, with or
  without a multipart body.
\<close>

theorem login_replaces_credential:
  assumes logged: "login c tr email password w = (Inr resp, c', w')"
    and has: "py_contains resp ''token'' = Inr True"
    and tok: "py_subscript resp ''token'' = Inr t"
    and truthy: "truthy t"
  shows "jwt_token c' = t \<and> api_key c' = None
       \<and> (\<exists>n. calls (log (snd (request c' tr_next endpoint verb params json_data files w_next)))
                = calls (log w_next) @ replicate n (request_kwargs c' endpoint verb params json_data files))
       \<and> map_of (presented_headers (request_kwargs c' endpoint verb params json_data files)) ''Authorization''
           = Some (Bearer t)
       \<and> map_of (presented_headers (request_kwargs c' endpoint verb params json_data files)) ''X-API-Key''
           = None"
proof -
  from logged has tok have c': "c' = update_auth_headers (c\<lparr>jwt_token := t, api_key := None\<rparr>)"
    by (auto simp: login_def split: prod.splits sum.splits bool.splits)
  with truthy have hs: "session_headers c' = default_headers @ [(''Authorization'', Bearer t)]"
    by (simp add: update_auth_headers_def)
  from c' have "jwt_token c' = t" "api_key c' = None"
    by (simp_all add: update_auth_headers_def)
  with request_calls [of c' tr_next endpoint verb params json_data files w_next] bearer_presented [OF hs]
  show ?thesis by blast
qed

lemma login_run:
  "login_as (key_client 3 1) (answer_with (ok_json (JObj [(''token'', t)])))
     = (Inr (JObj [(''token'', t)]),
        update_auth_headers ((key_client 3 1)\<lparr>jwt_token := t, api_key := None\<rparr>),
        \<lparr>remote = (), log = [Sent (request_kwargs (key_client 3 1) ''/auth/login'' ''POST'' None
            (Some (JObj [(''email'', JStr ''user@example.com''), (''password'', JStr ''password'')])) None)]\<rparr>)"
  by (simp add: login_as_def login_def run_defs ok_json_def ok_def key_client_def)

text \<open>
  Claim C5 as stated fails for a response that contains a token the code takes for
  absent: with \<^verbatim>\<open>{"token": ""}\<close> the login succeeds, the API key is cleared,
  and \<^verbatim>\<open>_update_auth_headers\<close> sets no credential at all, so the next call
  presents no \<^verbatim>\<open>Authorization\<close> header.
\<close>

theorem login_empty_token_counterexample:
  "fst (login_as (key_client 3 1) (answer_with (ok_json (JObj [(''token'', JStr [])]))))
     = Inr (JObj [(''token'', JStr [])])
   \<and> py_contains (JObj [(''token'', JStr [])]) ''token'' = Inr True
   \<and> map_of (presented_headers (health_call
        (fst (snd (login_as (key_client 3 1) (answer_with (ok_json (JObj [(''token'', JStr [])])))))))) ''Authorization''
       = None"
  by (simp add: login_run health_call_def presented_headers_def request_kwargs_def update_auth_headers_def
      default_headers_def)

theorem login_replaces_credential_witness:
  "login_as (key_client 3 1) (answer_with (ok_json (JObj [(''token'', JStr ''jwt-1'')])))
     = (Inr (JObj [(''token'', JStr ''jwt-1'')]),
        update_auth_headers ((key_client 3 1)\<lparr>jwt_token := JStr ''jwt-1'', api_key := None\<rparr>),
        \<lparr>remote = (), log = [Sent (request_kwargs (key_client 3 1) ''/auth/login'' ''POST'' None
            (Some (JObj [(''email'', JStr ''user@example.com''), (''password'', JStr ''password'')])) None)]\<rparr>)
   \<and> py_contains (JObj [(''token'', JStr ''jwt-1'')]) ''token'' = Inr True
   \<and> py_subscript (JObj [(''token'', JStr ''jwt-1'')]) ''token'' = Inr (JStr ''jwt-1'')
   \<and> truthy (JStr ''jwt-1'')
   \<and> map_of (presented_headers (health_call
        (update_auth_headers ((key_client 3 1)\<lparr>jwt_token := JStr ''jwt-1'', api_key := None\<rparr>)))) ''Authorization''
       = Some (Bearer (JStr ''jwt-1''))
   \<and> map_of (presented_headers (health_call
        (update_auth_headers ((key_client 3 1)\<lparr>jwt_token := JStr ''jwt-1'', api_key := None\<rparr>)))) ''X-API-Key''
       = None"
proof -
  let ?resp = "JObj [(''token'', JStr ''jwt-1'')]"
  let ?c' = "update_auth_headers ((key_client 3 1)\<lparr>jwt_token := JStr ''jwt-1'', api_key := None\<rparr>)"
  have logged: "login (key_client 3 1) (answer_with (ok_json ?resp)) ''user@example.com'' ''password'' start
      = (Inr ?resp, ?c',
        \<lparr>remote = (), log = [Sent (request_kwargs (key_client 3 1) ''/auth/login'' ''POST'' None
            (Some (JObj [(''email'', JStr ''user@example.com''), (''password'', JStr ''password'')])) None)]\<rparr>)"
    using login_run [of "JStr ''jwt-1''"] by (simp add: login_as_def)
  have has: "py_contains ?resp ''token'' = Inr True" by simp
  have tok: "py_subscript ?resp ''token'' = Inr (JStr ''jwt-1'')" by simp
  have tr: "truthy (JStr ''jwt-1'')" by simp
  from login_replaces_credential [where endpoint = "''/health''" and verb = "''GET''"
      and params = None and json_data = None and files = None
      and tr_next = "answer_with (ok_json ?resp)" and w_next = start, OF logged has tok tr]
  show ?thesis using logged has tok tr by (simp add: health_call_def login_as_def)
qed

text \<open>
  The same for every client and every falsy token (\<^verbatim>\<open>""\<close>, \<^verbatim>\<open>null\<close>,
  \<^verbatim>\<open>0\<close>, ...): the API key is cleared and later calls present neither header.
\<close>

lemma login_falsy_token:
  assumes logged: "login c tr email password w = (Inr resp, c', w')"
    and has: "py_contains resp ''token'' = Inr True"
    and tok: "py_subscript resp ''token'' = Inr t"
    and falsy: "\<not> truthy t"
  shows "api_key c' = None
       \<and> map_of (presented_headers (request_kwargs c' endpoint verb params json_data files)) ''Authorization''
           = None
       \<and> map_of (presented_headers (request_kwargs c' endpoint verb params json_data files)) ''X-API-Key''
           = None"
proof -
  from logged has tok have c': "c' = update_auth_headers (c\<lparr>jwt_token := t, api_key := None\<rparr>)"
    by (auto simp: login_def split: prod.splits sum.splits bool.splits)
  with falsy have hs: "session_headers c' = default_headers"
    by (simp add: update_auth_headers_def)
  from c' have "api_key c' = None"
    by (simp add: update_auth_headers_def)
  with hs show ?thesis
    by (simp add: presented_headers_def request_kwargs_def default_headers_def Let_def)
qed

section \<open>Query parameters\<close>

lemma request_kwargs_params:
  "call_params (request_kwargs c endpoint verb params json_data files) = params"
  by (simp add: request_kwargs_def Let_def)

text \<open>
  Claim C8 as stated fails for the empty string: \<^verbatim>\<open>get_files(status='', file_type=None)\<close>
  drops the \<^verbatim>\<open>None\<close> filter only, and the call it sends still encodes
  \<^verbatim>\<open>status=\<close>.
\<close>

theorem empty_string_filter_counterexample:
  "map encoded_query (calls (log (snd (get_files (key_client 3 1) (answer_with (ok_json (JObj [])))
      [(''status'', JStr []), (''file_type'', JNull)] start))))
     = [[(''status'', JStr [])]]"
  by (simp add: get_files_def clean_filters_def run_defs ok_json_def ok_def encoded_query_def
      request_kwargs_def key_client_def)

text \<open>
  Claim C8, as amended. \<^verbatim>\<open>request\<close> hands the caller's mapping to the transport
  unchanged, and \<^verbatim>\<open>get_files\<close> removes the entries whose value is \<^verbatim>\<open>None\<close>
  first; in the query string of every call sent, the entries with value \<^verbatim>\<open>None\<close>
  are missing and all others, the empty string among them, are present.
\<close>

theorem none_params_dropped:
  "(\<exists>n. calls (log (snd (request c tr endpoint verb (Some ps) json_data files w)))
          = calls (log w) @ replicate n (request_kwargs c endpoint verb (Some ps) json_data files))
   \<and> call_params (request_kwargs c endpoint verb (Some ps) json_data files) = Some ps
   \<and> set (encoded_query (request_kwargs c endpoint verb (Some ps) json_data files))
        = set ps - {kv. snd kv = JNull}
   \<and> (\<exists>n. calls (log (snd (get_files c tr filters w)))
          = calls (log w) @ replicate n (request_kwargs c ''/files'' ''GET'' (Some (clean_filters filters)) None None))
   \<and> set (clean_filters filters) = set filters - {kv. snd kv = JNull}
   \<and> set (encoded_query (request_kwargs c ''/files'' ''GET'' (Some (clean_filters filters)) None None))
        = set filters - {kv. snd kv = JNull}"
proof -
  have enc: "set (encoded_query (request_kwargs c e v (Some qs) j f)) = set qs - {kv. snd kv = JNull}"
    for e v qs j f
    by (auto simp: encoded_query_def request_kwargs_params)
  have clean: "set (clean_filters filters) = set filters - {kv. snd kv = JNull}"
    by (auto simp: clean_filters_def)
  have "set (encoded_query (request_kwargs c ''/files'' ''GET'' (Some (clean_filters filters)) None None))
        = set filters - {kv. snd kv = JNull}"
    unfolding enc clean by auto
  with request_calls [of c tr endpoint verb "Some ps" json_data files w]
    request_calls [of c tr "''/files''" "''GET''" "Some (clean_filters filters)" None None w]
    enc [of endpoint verb ps json_data files] clean
  show ?thesis
    by (simp add: get_files_def request_kwargs_params)
qed

section \<open>Pagination\<close>

lemma paginate_loop_unfold:
  assumes "request c tr endpoint ''GET'' (Some (page_params options limit offset)) None None w = (Inr resp, w')"
  shows "paginate_loop c tr endpoint options limit offset results w =
           (case page_step resp limit offset results of
              Inl e \<Rightarrow> Some (Inl e, w')
            | Inr (results', offset', stop) \<Rightarrow>
                if stop then Some (Inr results', w')
                else paginate_loop c tr endpoint options limit offset' results' w')"
  by (subst paginate_loop.simps) (simp add: assms)

lemma page_step_no_data:
  "map_of kvs ''data'' = None \<Longrightarrow> page_step (JObj kvs) limit offset results = Inr (results, offset, True)"
  by (simp add: page_step_def)

lemma page_step_empty:
  "map_of kvs ''data'' = Some (JArr []) \<Longrightarrow> page_step (JObj kvs) limit offset results = Inr (results, offset, True)"
  by (simp add: page_step_def)

lemma page_step_documented:
  assumes "map_of kvs ''data'' = Some (JArr items)" and "items \<noteq> []"
    and "map_of kvs ''pagination'' = Some (JObj pg)" and "map_of pg ''total'' = Some (JNum t)"
  shows "page_step (JObj kvs) limit offset results =
           Inr (results @ items, offset + limit, int (length items) < limit \<or> t \<le> offset + limit)"
  using assms by (simp add: page_step_def)

lemma page_step_no_total:
  assumes "map_of kvs ''data'' = Some (JArr items)" and "items \<noteq> []"
    and "map_of kvs ''pagination'' = None \<or> (map_of kvs ''pagination'' = Some (JObj pg) \<and> map_of pg ''total'' = None)"
  shows "page_step (JObj kvs) limit offset results =
           Inr (results @ items, offset + limit, int (length items) < limit \<or> 0 \<le> offset + limit)"
  using assms by (auto simp: page_step_def)

text \<open>
  One pass of the loop on a page of the documented shape: the page's items are appended
  in order, and the loop ends exactly when the page holds fewer than \<open>limit\<close> items
  or the total is at most the new offset; a response without \<^verbatim>\<open>data\<close>, or with an
  empty one, ends it with the accumulator unchanged.
\<close>

lemma paginate_loop_page:
  assumes req: "request c tr endpoint ''GET'' (Some (page_params options limit offset)) None None w
                  = (Inr (JObj kvs), w')"
  shows "(map_of kvs ''data'' = None \<or> map_of kvs ''data'' = Some (JArr []) \<longrightarrow>
            paginate_loop c tr endpoint options limit offset results w = Some (Inr results, w'))
       \<and> (\<forall>items pg t. map_of kvs ''data'' = Some (JArr items) \<and> items \<noteq> []
              \<and> map_of kvs ''pagination'' = Some (JObj pg) \<and> map_of pg ''total'' = Some (JNum t) \<longrightarrow>
            paginate_loop c tr endpoint options limit offset results w =
              (if int (length items) < limit \<or> t \<le> offset + limit
               then Some (Inr (results @ items), w')
               else paginate_loop c tr endpoint options limit (offset + limit) (results @ items) w'))"
  unfolding paginate_loop_unfold [OF req]
  by (auto simp: page_step_no_data page_step_empty page_step_documented)

lemma request_ok:
  assumes "1 \<le> retry_attempts c"
    and "tr (remote w) (request_kwargs c endpoint verb params json_data files) = (Inr r, s)"
    and "status_code r = 200" and "resp_json r = Some body"
  shows "request c tr endpoint verb params json_data files w =
           (Inr body, w\<lparr>remote := s, log := log w @ [Sent (request_kwargs c endpoint verb params json_data files)]\<rparr>)"
  unfolding request_def first_attempt [OF assms(1)]
  using assms(2-4) by (simp add: request_attempt_def send_def classify_def ok_def)

lemma page_params_plain: "page_params [] limit offset = [(''limit'', JNum limit), (''offset'', JNum offset)]"
  by (simp add: page_params_def)

lemma slices_of_45:
  "slice (page_call c 20 0) (numbered 1 45) = numbered 1 20"
  "slice (page_call c 20 20) (numbered 1 45) = numbered 21 40"
  "slice (page_call c 20 40) (numbered 1 45) = numbered 41 45"
  by (simp_all add: slice_def int_param_def page_call_def request_kwargs_params numbered_def upto.simps)

lemma numbered_facts:
  "numbered 1 20 \<noteq> []" "numbered 21 40 \<noteq> []" "numbered 41 45 \<noteq> []"
  "length (numbered 1 20) = 20" "length (numbered 21 40) = 20"
  "length (numbered 41 45) = 5" "length (numbered 1 45) = 45"
  "numbered 1 20 @ numbered 21 40 = numbered 1 40"
  "numbered 1 40 @ numbered 41 45 = numbered 1 45"
  by (simp_all add: numbered_def upto.simps)

lemma collection_page:
  "request (key_client 3 1) (collection_server (numbered 1 45)) ''/files'' ''GET''
     (Some (page_params [] 20 offset)) None None w
   = (Inr (JObj [(''data'', JArr (slice (page_call (key_client 3 1) 20 offset) (numbered 1 45))),
                 (''pagination'', JObj [(''total'', JNum 45)])]),
      w\<lparr>log := log w @ [Sent (page_call (key_client 3 1) 20 offset)]\<rparr>)"
  by (subst request_ok [where r = "ok_json (JObj [(''data'', JArr (slice (page_call (key_client 3 1) 20 offset) (numbered 1 45))),
                 (''pagination'', JObj [(''total'', JNum 45)])])" and s = "()"])
     (simp_all add: key_client_def collection_server_def page_call_def page_params_plain ok_json_def numbered_facts)

lemma paginate_page_size:
  "paginate c tr endpoint limit options w = paginate_loop c tr endpoint options (page_size limit) 0 [] w"
  by (simp add: paginate_def page_size_def)

lemma page_step_documented_page:
  assumes "documented_page resp = Some p"
  shows "page_step resp limit offset results =
           (if fst p = [] then Inr (results, offset, True)
            else Inr (results @ fst p, offset + limit, last_page limit offset p))"
proof -
  from assms obtain kvs where resp: "resp = JObj kvs"
    by (cases resp) (simp_all add: documented_page_def)
  show ?thesis
  proof (cases "map_of kvs ''data''")
    case None
    with assms resp show ?thesis by (auto simp: documented_page_def page_step_def)
  next
    case (Some d)
    with assms resp obtain items where d: "d = JArr items"
      by (cases d) (simp_all add: documented_page_def)
    show ?thesis
    proof (cases items)
      case Nil
      with assms resp Some d show ?thesis by (auto simp: documented_page_def page_step_def)
    next
      case (Cons x xs)
      with assms resp Some d obtain pg t where
        "map_of kvs ''pagination'' = Some (JObj pg)" "map_of pg ''total'' = Some (JNum t)"
        "p = (x # xs, t)"
        by (auto simp: documented_page_def split: option.splits json.splits)
      with resp Some d Cons show ?thesis
        by (simp add: page_step_def last_page_def)
    qed
  qed
qed

lemma paginate_loop_continue:
  "pages_continue c tr endpoint options limit offset w ps w' \<Longrightarrow>
   paginate_loop c tr endpoint options limit offset results w =
     paginate_loop c tr endpoint options limit (offset + int (length ps) * limit)
       (results @ concat (map fst ps)) w'"
proof (induction ps arbitrary: offset w results)
  case Nil
  then show ?case by simp
next
  case (Cons p ps)
  from Cons.prems obtain resp w1 where
    req: "request c tr endpoint ''GET'' (Some (page_params options limit offset)) None None w = (Inr resp, w1)"
    and doc: "documented_page resp = Some p" and more: "\<not> last_page limit offset p"
    and rest: "pages_continue c tr endpoint options limit (offset + limit) w1 ps w'"
    by (auto split: prod.splits sum.splits)
  from more have ne: "fst p \<noteq> []" by (simp add: last_page_def)
  have "paginate_loop c tr endpoint options limit offset results w =
          paginate_loop c tr endpoint options limit (offset + limit) (results @ fst p) w1"
    unfolding paginate_loop_unfold [OF req] page_step_documented_page [OF doc]
    using ne more by simp
  also have "\<dots> = paginate_loop c tr endpoint options limit (offset + limit + int (length ps) * limit)
                     ((results @ fst p) @ concat (map fst ps)) w'"
    by (rule Cons.IH [OF rest])
  finally show ?case by (simp add: algebra_simps)
qed

text \<open>
  Claim C4. For every endpoint, page size and further options: when the requests of
  \<^verbatim>\<open>paginate\<close>, at the offsets 0, \<open>limit\<close>, \<open>2 \<times> limit\<close>, ..., are answered with
  pages of the documented shape, the pages \<open>ps\<close> not meeting the condition for the
  last page and the next page \<open>p\<close> meeting it, then \<^verbatim>\<open>paginate\<close> returns the items
  of \<open>ps\<close> and of \<open>p\<close> in order, and leaves the world as it is after the request for
  \<open>p\<close>: it went on after every page of \<open>ps\<close> and made no request after \<open>p\<close>. The
  witness is the collection of 45 items with \<open>limit = 20\<close>: three calls, at offsets
  0, 20 and 40, pages of 20, 20 and 5 items, all 45 items returned.
\<close>

theorem paginate_collects_pages:
  assumes earlier: "pages_continue c tr endpoint options (page_size limit) 0 w ps w1"
    and final: "request c tr endpoint ''GET''
                  (Some (page_params options (page_size limit) (int (length ps) * page_size limit)))
                  None None w1 = (Inr resp, w')"
    and shape: "documented_page resp = Some p"
    and stop: "last_page (page_size limit) (int (length ps) * page_size limit) p"
  shows "paginate c tr endpoint limit options w = Some (Inr (concat (map fst ps) @ fst p), w')"
proof -
  have "paginate c tr endpoint limit options w =
          paginate_loop c tr endpoint options (page_size limit) (int (length ps) * page_size limit)
            (concat (map fst ps)) w1"
    using paginate_loop_continue [OF earlier, of "[]"] by (simp add: paginate_page_size)
  also have "\<dots> = Some (Inr (concat (map fst ps) @ fst p), w')"
    unfolding paginate_loop_unfold [OF final] page_step_documented_page [OF shape]
    using stop by simp
  finally show ?thesis .
qed

lemma documented_page_plain:
  "documented_page (JObj [(''data'', JArr items), (''pagination'', JObj [(''total'', JNum t)])])
     = Some (if items = [] then ([], 0) else (items, t))"
  by (cases items) (simp_all add: documented_page_def)

theorem paginate_collects_pages_witness:
  "pages_continue (key_client 3 1) (collection_server (numbered 1 45)) ''/files'' [] (page_size (Some 20)) 0
      start [(numbered 1 20, 45), (numbered 21 40, 45)]
      \<lparr>remote = (), log = [Sent (page_call (key_client 3 1) 20 0), Sent (page_call (key_client 3 1) 20 20)]\<rparr>
   \<and> request (key_client 3 1) (collection_server (numbered 1 45)) ''/files'' ''GET''
        (Some (page_params [] (page_size (Some 20)) (int (length [(numbered 1 20, 45 :: int), (numbered 21 40, 45)]) * page_size (Some 20))))
        None None
        \<lparr>remote = (), log = [Sent (page_call (key_client 3 1) 20 0), Sent (page_call (key_client 3 1) 20 20)]\<rparr>
       = (Inr (JObj [(''data'', JArr (numbered 41 45)), (''pagination'', JObj [(''total'', JNum 45)])]),
          \<lparr>remote = (), log = [Sent (page_call (key_client 3 1) 20 0),
                               Sent (page_call (key_client 3 1) 20 20),
                               Sent (page_call (key_client 3 1) 20 40)]\<rparr>)
   \<and> documented_page (JObj [(''data'', JArr (numbered 41 45)), (''pagination'', JObj [(''total'', JNum 45)])])
       = Some (numbered 41 45, 45)
   \<and> last_page (page_size (Some 20)) 40 (numbered 41 45, 45)
   \<and> paginate (key_client 3 1) (collection_server (numbered 1 45)) ''/files'' (Some 20) [] start
       = Some (Inr (numbered 1 45),
               \<lparr>remote = (), log = [Sent (page_call (key_client 3 1) 20 0),
                                    Sent (page_call (key_client 3 1) 20 20),
                                    Sent (page_call (key_client 3 1) 20 40)]\<rparr>)
   \<and> map length [numbered 1 20, numbered 21 40, numbered 41 45] = [20, 20, 5]"
proof -
  let ?c = "key_client 3 1"
  let ?tr = "collection_server (numbered 1 45)"
  let ?page = "\<lambda>items. JObj [(''data'', JArr items), (''pagination'', JObj [(''total'', JNum 45)])]"
  let ?w2 = "\<lparr>remote = (), log = [Sent (page_call ?c 20 0), Sent (page_call ?c 20 20)]\<rparr>"
  let ?w3 = "\<lparr>remote = (), log = [Sent (page_call ?c 20 0), Sent (page_call ?c 20 20),
                                   Sent (page_call ?c 20 40)]\<rparr>"
  let ?ps = "[(numbered 1 20, 45 :: int), (numbered 21 40, 45)]"
  have size: "page_size (Some 20) = 20" by (simp add: page_size_def)
  have earlier: "pages_continue ?c ?tr ''/files'' [] (page_size (Some 20)) 0 start ?ps ?w2"
    by (simp add: size collection_page slices_of_45 documented_page_plain numbered_facts last_page_def
        start_def)
  have final: "request ?c ?tr ''/files'' ''GET''
                 (Some (page_params [] (page_size (Some 20)) (int (length ?ps) * page_size (Some 20))))
                 None None ?w2 = (Inr (?page (numbered 41 45)), ?w3)"
    by (simp add: size collection_page slices_of_45)
  have shape: "documented_page (?page (numbered 41 45)) = Some (numbered 41 45, 45)"
    by (simp add: documented_page_plain numbered_facts)
  have stop: "last_page (page_size (Some 20)) (int (length ?ps) * page_size (Some 20)) (numbered 41 45, 45)"
    by (simp add: size last_page_def numbered_facts)
  have lens: "map length [numbered 1 20, numbered 21 40, numbered 41 45] = [20, 20, 5]"
    using numbered_facts(4-6) by simp
  from paginate_collects_pages [OF earlier final shape stop]
  have run: "paginate ?c ?tr ''/files'' (Some 20) [] start = Some (Inr (numbered 1 45), ?w3)"
    by (simp add: numbered_facts)
  from stop have stop': "last_page (page_size (Some 20)) 40 (numbered 41 45, 45)"
    by (simp add: size)
  from earlier final shape stop' run lens show ?thesis by (intro conjI)
qed

text \<open>
  Claim C10 as stated fails for a negative page size: the total defaults to 0, but the
  new offset \<open>0 + (-1)\<close> is below it, so after appending a page without
  \<^verbatim>\<open>pagination.total\<close> the loop does not stop; it sends a second call, at
  offset \<open>-1\<close>.
\<close>

theorem negative_limit_counterexample:
  "paginate (key_client 3 1) in_turn ''/files'' (Some (- 1)) []
     \<lparr>remote = [ok_json (JObj [(''data'', JArr [JNum 1])]), ok_json (JObj [(''data'', JArr [])])],
      log = []\<rparr>
   = Some (Inr [JNum 1],
           \<lparr>remote = [], log = [Sent (page_call (key_client 3 1) (- 1) 0),
                               Sent (page_call (key_client 3 1) (- 1) (- 1))]\<rparr>)"
proof -
  let ?c = "key_client 3 1"
  let ?r1 = "ok_json (JObj [(''data'', JArr [JNum 1])])"
  let ?r2 = "ok_json (JObj [(''data'', JArr [])])"
  let ?w0 = "\<lparr>remote = [?r1, ?r2], log = []\<rparr>"
  let ?w1 = "\<lparr>remote = [?r2], log = [Sent (page_call ?c (- 1) 0)]\<rparr>"
  let ?w2 = "\<lparr>remote = [], log = [Sent (page_call ?c (- 1) 0), Sent (page_call ?c (- 1) (- 1))]\<rparr>"
  have r1: "request ?c in_turn ''/files'' ''GET'' (Some (page_params [] (- 1) 0)) None None ?w0
              = (Inr (JObj [(''data'', JArr [JNum 1])]), ?w1)"
    by (subst request_ok [where r = ?r1 and s = "[?r2]"])
       (simp_all add: key_client_def in_turn_def ok_json_def page_call_def page_params_plain)
  have r2: "request ?c in_turn ''/files'' ''GET'' (Some (page_params [] (- 1) (- 1))) None None ?w1
              = (Inr (JObj [(''data'', JArr [])]), ?w2)"
    by (subst request_ok [where r = ?r2 and s = "[]"])
       (simp_all add: key_client_def in_turn_def ok_json_def page_call_def page_params_plain)
  have "paginate_loop ?c in_turn ''/files'' [] (- 1) (- 1) [JNum 1] ?w1 = Some (Inr [JNum 1], ?w2)"
    unfolding paginate_loop_unfold [OF r2] by (simp add: page_step_def)
  then have "paginate_loop ?c in_turn ''/files'' [] (- 1) 0 [] ?w0 = Some (Inr [JNum 1], ?w2)"
    unfolding paginate_loop_unfold [OF r1] by (simp add: page_step_def)
  then show ?thesis by (simp add: paginate_def)
qed

text \<open>
  Claim C10, as amended. For every endpoint, every page size \<open>limit \<ge> 0\<close> and all
  further options: when a request of \<^verbatim>\<open>paginate\<close>, the first or one after the
  documented pages \<open>ps\<close> that let the loop go on, is answered with a non-empty
  \<^verbatim>\<open>data\<close> array and no \<^verbatim>\<open>pagination.total\<close> (no \<^verbatim>\<open>pagination\<close>
  object, or one without \<^verbatim>\<open>total\<close>), then \<^verbatim>\<open>paginate\<close> appends that page and
  returns, with no further request, whatever the length of the page: the total defaults
  to 0, which is at most the new offset.
\<close>

theorem paginate_stops_without_total:
  assumes nonneg: "0 \<le> page_size limit"
    and earlier: "pages_continue c tr endpoint options (page_size limit) 0 w ps w1"
    and final: "request c tr endpoint ''GET''
                  (Some (page_params options (page_size limit) (int (length ps) * page_size limit)))
                  None None w1 = (Inr (JObj kvs), w')"
    and data: "map_of kvs ''data'' = Some (JArr items)" and nonempty: "items \<noteq> []"
    and no_total: "map_of kvs ''pagination'' = None
                   \<or> (map_of kvs ''pagination'' = Some (JObj pg) \<and> map_of pg ''total'' = None)"
  shows "paginate c tr endpoint limit options w = Some (Inr (concat (map fst ps) @ items), w')"
proof -
  have "paginate c tr endpoint limit options w =
          paginate_loop c tr endpoint options (page_size limit) (int (length ps) * page_size limit)
            (concat (map fst ps)) w1"
    using paginate_loop_continue [OF earlier, of "[]"] by (simp add: paginate_page_size)
  also have "\<dots> = Some (Inr (concat (map fst ps) @ items), w')"
    unfolding paginate_loop_unfold [OF final] page_step_no_total [OF data nonempty no_total]
    using nonneg by simp
  finally show ?thesis .
qed

theorem paginate_stops_without_total_witness:
  "0 \<le> page_size (Some 2)
   \<and> pages_continue (key_client 3 1) in_turn ''/files'' [] (page_size (Some 2)) 0
        \<lparr>remote = [ok_json (JObj [(''data'', JArr [JNum 1, JNum 2]), (''pagination'', JObj [(''total'', JNum 10)])]),
                   ok_json (JObj [(''data'', JArr [JNum 3, JNum 4])]),
                   ok_json (JObj [(''data'', JArr [JNum 5, JNum 6])])],
         log = []\<rparr>
        [([JNum 1, JNum 2], 10)]
        \<lparr>remote = [ok_json (JObj [(''data'', JArr [JNum 3, JNum 4])]),
                   ok_json (JObj [(''data'', JArr [JNum 5, JNum 6])])],
         log = [Sent (page_call (key_client 3 1) 2 0)]\<rparr>
   \<and> map_of [(''data'', JArr [JNum 3, JNum 4])] ''data'' = Some (JArr [JNum 3, JNum 4])
   \<and> [JNum 3, JNum 4] \<noteq> []
   \<and> map_of [(''data'', JArr [JNum 3, JNum 4])] ''pagination'' = None
   \<and> int (length [JNum 3, JNum 4]) = page_size (Some 2)
   \<and> paginate (key_client 3 1) in_turn ''/files'' (Some 2) []
        \<lparr>remote = [ok_json (JObj [(''data'', JArr [JNum 1, JNum 2]), (''pagination'', JObj [(''total'', JNum 10)])]),
                   ok_json (JObj [(''data'', JArr [JNum 3, JNum 4])]),
                   ok_json (JObj [(''data'', JArr [JNum 5, JNum 6])])],
         log = []\<rparr>
       = Some (Inr [JNum 1, JNum 2, JNum 3, JNum 4],
               \<lparr>remote = [ok_json (JObj [(''data'', JArr [JNum 5, JNum 6])])],
                log = [Sent (page_call (key_client 3 1) 2 0), Sent (page_call (key_client 3 1) 2 2)]\<rparr>)"
proof -
  let ?c = "key_client 3 1"
  let ?r1 = "ok_json (JObj [(''data'', JArr [JNum 1, JNum 2]), (''pagination'', JObj [(''total'', JNum 10)])])"
  let ?r2 = "ok_json (JObj [(''data'', JArr [JNum 3, JNum 4])])"
  let ?r3 = "ok_json (JObj [(''data'', JArr [JNum 5, JNum 6])])"
  let ?kvs = "[(''data'', JArr [JNum 3, JNum 4])]"
  let ?w0 = "\<lparr>remote = [?r1, ?r2, ?r3], log = []\<rparr>"
  let ?w1 = "\<lparr>remote = [?r2, ?r3], log = [Sent (page_call ?c 2 0)]\<rparr>"
  let ?w2 = "\<lparr>remote = [?r3], log = [Sent (page_call ?c 2 0), Sent (page_call ?c 2 2)]\<rparr>"
  have size: "page_size (Some 2) = 2" by (simp add: page_size_def)
  have nonneg: "0 \<le> page_size (Some 2)" by (simp add: size)
  have r1: "request ?c in_turn ''/files'' ''GET'' (Some (page_params [] 2 0)) None None ?w0
              = (Inr (JObj [(''data'', JArr [JNum 1, JNum 2]), (''pagination'', JObj [(''total'', JNum 10)])]), ?w1)"
    by (subst request_ok [where r = ?r1 and s = "[?r2, ?r3]"])
       (simp_all add: key_client_def in_turn_def ok_json_def page_call_def page_params_plain)
  have r2: "request ?c in_turn ''/files'' ''GET''
              (Some (page_params [] (page_size (Some 2)) (int (length [([JNum 1, JNum 2], 10 :: int)]) * page_size (Some 2))))
              None None ?w1 = (Inr (JObj ?kvs), ?w2)"
    unfolding size
    by (subst request_ok [where r = ?r2 and s = "[?r3]"])
       (simp_all add: key_client_def in_turn_def ok_json_def page_call_def page_params_plain)
  have earlier: "pages_continue ?c in_turn ''/files'' [] (page_size (Some 2)) 0 ?w0 [([JNum 1, JNum 2], 10)] ?w1"
    by (simp add: size r1 documented_page_plain last_page_def)
  have data: "map_of ?kvs ''data'' = Some (JArr [JNum 3, JNum 4])" by simp
  have ne: "[JNum 3, JNum 4] \<noteq> []" by simp
  have nt: "map_of ?kvs ''pagination'' = None
            \<or> (map_of ?kvs ''pagination'' = Some (JObj []) \<and> map_of [] ''total'' = None)" by simp
  from paginate_stops_without_total [OF nonneg earlier r2 data ne nt]
  have run: "paginate ?c in_turn ''/files'' (Some 2) [] ?w0 = Some (Inr [JNum 1, JNum 2, JNum 3, JNum 4], ?w2)"
    by simp
  have full: "int (length [JNum 3, JNum 4]) = page_size (Some 2)" by (simp add: size)
  have none: "map_of ?kvs ''pagination'' = None" by simp
  from nonneg earlier data ne none full run show ?thesis by (intro conjI)
qed

section \<open>Webhook signatures\<close>

lemma hex_digit_ascii: "d < 16 \<Longrightarrow> hex_digit d < 128"
  by (simp add: hex_digit_def)

lemma hex_digit_inj: "d < 16 \<Longrightarrow> d' < 16 \<Longrightarrow> hex_digit d = hex_digit d' \<Longrightarrow> d = d'"
  by (auto simp: hex_digit_def split: if_splits)

lemma hexdigest_Nil: "hexdigest [] = []"
  by (simp add: hexdigest_def)

lemma hexdigest_Cons:
  "hexdigest (b # bs) = hex_digit (unat b div 16) # hex_digit (unat b mod 16) # hexdigest bs"
  by (simp add: hexdigest_def)

lemma byte_nibbles: "unat (b :: 8 word) div 16 < 16" "unat b mod 16 < 16"
proof -
  have "unat b < 2 ^ LENGTH(8)" by (rule unsigned_less)
  then have "unat b < 256" by simp
  then show "unat b div 16 < 16" by simp
  show "unat b mod 16 < 16" by simp
qed

lemma is_ascii_hexdigest: "is_ascii (hexdigest bs)"
  by (induction bs) (simp_all add: is_ascii_def hexdigest_Nil hexdigest_Cons hex_digit_ascii byte_nibbles)

lemma length_hexdigest: "length (hexdigest bs) = 2 * length bs"
  by (induction bs) (simp_all add: hexdigest_Nil hexdigest_Cons)

lemma byte_eq_nibbles:
  assumes "unat (a :: 8 word) div 16 = unat (b :: 8 word) div 16" and "unat a mod 16 = unat b mod 16"
  shows "a = b"
proof -
  have "unat a = 16 * (unat a div 16) + unat a mod 16" by simp
  also have "\<dots> = 16 * (unat b div 16) + unat b mod 16" using assms by simp
  also have "\<dots> = unat b" by simp
  finally show ?thesis by (simp add: word_unat_eq_iff)
qed

lemma hexdigest_inj: "hexdigest as = hexdigest bs \<Longrightarrow> as = bs"
proof (induction as arbitrary: bs)
  case Nil
  then show ?case by (cases bs) (simp_all add: hexdigest_Nil hexdigest_Cons)
next
  case (Cons a as)
  then obtain b bs' where bs: "bs = b # bs'"
    by (cases bs) (simp_all add: hexdigest_Nil hexdigest_Cons)
  with Cons.prems have hi: "hex_digit (unat a div 16) = hex_digit (unat b div 16)"
    and lo: "hex_digit (unat a mod 16) = hex_digit (unat b mod 16)"
    and rest: "hexdigest as = hexdigest bs'"
    by (simp_all add: hexdigest_Cons)
  have "unat a div 16 = unat b div 16"
    using hi by (rule hex_digit_inj [OF byte_nibbles(1) byte_nibbles(1)])
  moreover have "unat a mod 16 = unat b mod 16"
    using lo by (rule hex_digit_inj [OF byte_nibbles(2) byte_nibbles(2)])
  ultimately have "a = b" by (rule byte_eq_nibbles)
  with Cons.IH [OF rest] bs show ?case by simp
qed

lemma validate_webhook_signature_encoded:
  assumes "encode_utf8 secret = Inr key"
  shows "validate_webhook_signature hmac_digest payload signature secret =
           (if is_ascii signature then Inr (signature = hexdigest (hmac_digest key payload))
            else Inl TypeError)"
  using assms by (simp add: validate_webhook_signature_def compare_digest_def is_ascii_hexdigest)

lemma non_ascii_signature_raises:
  assumes "encode_utf8 secret = Inr key" and "\<not> is_ascii signature"
  shows "validate_webhook_signature hmac_digest payload signature secret = Inl TypeError"
  using assms by (simp add: validate_webhook_signature_encoded)

lemma surrogate_secret_raises:
  "validate_webhook_signature hmac_digest payload signature [0xD800] = Inl UnicodeEncodeError"
  by (simp add: validate_webhook_signature_def utf8_char_def)

text \<open>
  Claim C3 as stated fails where the signature leaves ASCII: the correct signature with
  its first character replaced by \<^verbatim>\<open>U+00E9\<close> does not make the verifier return
  false, \<^verbatim>\<open>hmac.compare_digest\<close> raises \<^verbatim>\<open>TypeError\<close>. This holds for
  every keyed hash (\<open>non_ascii_signature_raises\<close>).
\<close>

theorem non_ascii_signature_counterexample:
  "validate_webhook_signature stand_in_mac [1, 2, 3]
     (0xE9 # tl (hexdigest (stand_in_mac [119, 104, 115, 101, 99] [1, 2, 3]))) whsec
     = Inl TypeError"
  by (simp add: validate_webhook_signature_def whsec_def utf8_char_def compare_digest_def is_ascii_def)

text \<open>
  Claim C3, as amended. For a secret that UTF-8 can encode, the verifier returns true
  exactly when the signature is the hex digest of the keyed hash of the payload; so the
  correct signature is accepted, every other ASCII signature is rejected with false, a
  signature with a character outside ASCII raises \<^verbatim>\<open>TypeError\<close>, and the
  signature of one payload and secret is accepted for another payload or secret exactly
  when the two digests coincide.
\<close>

theorem webhook_signature_valid_iff:
  assumes key: "encode_utf8 secret = Inr key"
  shows "(validate_webhook_signature hmac_digest payload signature secret = Inr True)
           = (signature = hexdigest (hmac_digest key payload))
       \<and> validate_webhook_signature hmac_digest payload (hexdigest (hmac_digest key payload)) secret = Inr True
       \<and> (is_ascii signature \<and> signature \<noteq> hexdigest (hmac_digest key payload) \<longrightarrow>
            validate_webhook_signature hmac_digest payload signature secret = Inr False)
       \<and> (\<not> is_ascii signature \<longrightarrow>
            validate_webhook_signature hmac_digest payload signature secret = Inl TypeError)
       \<and> (\<forall>payload' secret' key'. encode_utf8 secret' = Inr key' \<longrightarrow>
            validate_webhook_signature hmac_digest payload' (hexdigest (hmac_digest key payload)) secret'
              = Inr (hmac_digest key' payload' = hmac_digest key payload))"
proof -
  have eq: "(hexdigest (hmac_digest key payload) = hexdigest (hmac_digest key' payload'))
              = (hmac_digest key' payload' = hmac_digest key payload)" for key' payload'
    using hexdigest_inj by auto
  show ?thesis
    using is_ascii_hexdigest [of "hmac_digest key payload"]
    by (auto simp: validate_webhook_signature_encoded [OF key] validate_webhook_signature_encoded eq)
qed

lemma encode_whsec: "encode_utf8 whsec = Inr [119, 104, 115, 101, 99]"
  by (simp add: whsec_def utf8_char_def)

theorem webhook_signature_valid_iff_witness:
  "encode_utf8 whsec = Inr [119, 104, 115, 101, 99]
   \<and> validate_webhook_signature stand_in_mac [1, 2, 3]
         (hexdigest (stand_in_mac [119, 104, 115, 101, 99] [1, 2, 3])) whsec = Inr True
   \<and> is_ascii [48, 48] \<and> [48, 48] \<noteq> hexdigest (stand_in_mac [119, 104, 115, 101, 99] [1, 2, 3])
   \<and> validate_webhook_signature stand_in_mac [1, 2, 3] [48, 48] whsec = Inr False
   \<and> \<not> is_ascii [0xE9]
   \<and> validate_webhook_signature stand_in_mac [1, 2, 3] [0xE9] whsec = Inl TypeError
   \<and> validate_webhook_signature stand_in_mac [1, 2, 4]
         (hexdigest (stand_in_mac [119, 104, 115, 101, 99] [1, 2, 3])) whsec = Inr False"
proof -
  let ?key = "[119, 104, 115, 101, 99] :: bytes"
  let ?sig = "hexdigest (stand_in_mac ?key [1, 2, 3])"
  have asc: "is_ascii [48, 48]" and nasc: "\<not> is_ascii [0xE9]"
    by (simp_all add: is_ascii_def)
  have len: "length ?sig = 64"
    by (simp add: length_hexdigest stand_in_mac_def)
  have ne: "[48, 48] \<noteq> ?sig"
  proof
    assume "[48, 48] = ?sig"
    then have "length [48 :: nat, 48] = length ?sig" by (rule arg_cong)
    with len show False by simp
  qed
  have differs: "stand_in_mac ?key [1, 2, 4] \<noteq> stand_in_mac ?key [1, 2, 3]"
    by (simp add: stand_in_mac_def)
  from webhook_signature_valid_iff [where hmac_digest = stand_in_mac
      and payload = "[1, 2, 3]" and signature = "[48, 48]", OF encode_whsec]
    webhook_signature_valid_iff [where hmac_digest = stand_in_mac
      and payload = "[1, 2, 3]" and signature = "[0xE9]", OF encode_whsec]
  show ?thesis
    using encode_whsec asc nasc ne differs by simp
qed

end
